theory Spec2Isabelle
  imports Complex_Main
begin

section \<open>JavaScript strings and numbers\<close>

text \<open>
  The workout tracker is written in TypeScript and JavaScript.  Its row codec and date
  normalizer are built from a handful of library operations on strings and numbers
  (\<^verbatim>\<open>trim\<close>, \<^verbatim>\<open>split\<close>, \<^verbatim>\<open>toLowerCase\<close>, \<^verbatim>\<open>parseInt\<close>, \<^verbatim>\<open>parseFloat\<close>,
  \<^verbatim>\<open>Number\<close>, \<^verbatim>\<open>toString\<close>).  They are modelled here on ASCII text.  A number is
  \<^verbatim>\<open>NaN\<close>, an infinity or an exact rational: the rounding of IEEE doubles, the
  negative zero and the exponent notation \<^verbatim>\<open>toString\<close> uses for very large and very
  small numbers are not modelled, so the model agrees with the engine on the safe integers
  and on decimal numerals of up to 15 significant digits.
\<close>

definition isSpace :: "char \<Rightarrow> bool" where
  "isSpace c = (c = CHR '' '' \<or> c = CHR 0x09 \<or> c = CHR 0x0A \<or> c = CHR 0x0B
                \<or> c = CHR 0x0C \<or> c = CHR 0x0D)"

definition isDigit :: "char \<Rightarrow> bool" where
  "isDigit c = (48 \<le> (of_char c :: nat) \<and> (of_char c :: nat) \<le> 57)"

definition digitVal :: "char \<Rightarrow> nat" where
  "digitVal c = of_char c - 48"

definition isHexDigit :: "char \<Rightarrow> bool" where
  "isHexDigit c = (isDigit c \<or> (65 \<le> (of_char c :: nat) \<and> (of_char c :: nat) \<le> 70)
                   \<or> (97 \<le> (of_char c :: nat) \<and> (of_char c :: nat) \<le> 102))"

definition hexVal :: "char \<Rightarrow> nat" where
  "hexVal c = (if isDigit c then digitVal c
               else if (of_char c :: nat) \<le> 70 then of_char c - 55 else of_char c - 87)"

definition radixValue :: "nat \<Rightarrow> (char \<Rightarrow> nat) \<Rightarrow> string \<Rightarrow> nat" where
  "radixValue r val ds = foldl (\<lambda>a c. r * a + val c) 0 ds"

definition decValue :: "string \<Rightarrow> nat" where
  "decValue ds = radixValue 10 digitVal ds"

text \<open>\<^verbatim>\<open>String.prototype.trim\<close>, \<^verbatim>\<open>split\<close> on a one-character separator,
  \<^verbatim>\<open>includes\<close> of one character, and \<^verbatim>\<open>toLowerCase\<close>.\<close>

definition trim :: "string \<Rightarrow> string" where
  "trim s = rev (dropWhile isSpace (rev (dropWhile isSpace s)))"

fun split :: "char \<Rightarrow> string \<Rightarrow> string list" where
  "split sep [] = [[]]"
| "split sep (c # cs) =
     (if c = sep then [] # split sep cs
      else (case split sep cs of [] \<Rightarrow> [[c]] | w # ws \<Rightarrow> (c # w) # ws))"

definition includesChar :: "string \<Rightarrow> char \<Rightarrow> bool" where
  "includesChar s c = (c \<in> set s)"

definition toLowerChar :: "char \<Rightarrow> char" where
  "toLowerChar c = (if 65 \<le> (of_char c :: nat) \<and> (of_char c :: nat) \<le> 90
                    then char_of ((of_char c :: nat) + 32) else c)"

definition toLowerCase :: "string \<Rightarrow> string" where
  "toLowerCase s = map toLowerChar s"

text \<open>A cell read from a row that is too short is \<^verbatim>\<open>undefined\<close>: \<open>None\<close>.  A value is
  truthy when it is a non-empty string; \<^verbatim>\<open>x || ''\<close> replaces a falsy one by the empty
  string; a library function given \<^verbatim>\<open>undefined\<close> reads the text \<^verbatim>\<open>"undefined"\<close>.\<close>

definition cell :: "string list \<Rightarrow> nat \<Rightarrow> string option" where
  "cell row i = (if i < length row then Some (row ! i) else None)"

definition truthy :: "string option \<Rightarrow> bool" where
  "truthy c = (case c of None \<Rightarrow> False | Some s \<Rightarrow> s \<noteq> [])"

definition orEmpty :: "string option \<Rightarrow> string" where
  "orEmpty c = (case c of None \<Rightarrow> [] | Some s \<Rightarrow> s)"

definition toStr :: "string option \<Rightarrow> string" where
  "toStr c = (case c of None \<Rightarrow> ''undefined'' | Some s \<Rightarrow> s)"

datatype jsnum = NaN | PInf | NInf | Fin rat

definition orZero :: "jsnum \<Rightarrow> jsnum" where
  "orZero x = (case x of NaN \<Rightarrow> Fin 0 | _ \<Rightarrow> x)"

definition numTruthy :: "jsnum \<Rightarrow> bool" where
  "numTruthy x = (x \<noteq> NaN \<and> x \<noteq> Fin 0)"

definition stripSign :: "string \<Rightarrow> bool \<times> string" where
  "stripSign s =
     (case s of
        [] \<Rightarrow> (False, [])
      | c # r \<Rightarrow> if c = CHR ''-'' then (True, r)
                 else if c = CHR ''+'' then (False, r) else (False, s))"

definition signed :: "bool \<Rightarrow> rat \<Rightarrow> rat" where
  "signed neg v = (if neg then - v else v)"

text \<open>\<^verbatim>\<open>parseInt(s)\<close> with no radix: leading white space and a sign are skipped, a
  \<^verbatim>\<open>0x\<close> prefix selects base 16, the longest run of digits is read, and no digit at
  all is \<^verbatim>\<open>NaN\<close>.\<close>

definition parseInt :: "string \<Rightarrow> jsnum" where
  "parseInt s =
     (let (neg, u) = stripSign (dropWhile isSpace s);
          hex = (take 2 u = ''0x'' \<or> take 2 u = ''0X'');
          ds = (if hex then takeWhile isHexDigit (drop 2 u) else takeWhile isDigit u);
          v = (if hex then radixValue 16 hexVal ds else decValue ds)
      in if ds = [] then NaN else Fin (signed neg (of_nat v)))"

text \<open>The exponent part of a decimal literal: \<^verbatim>\<open>e\<close> or \<^verbatim>\<open>E\<close>, an optional sign and at
  least one digit.  The result is the exponent and the text after it; without a
  well-formed exponent the text is left as it is.\<close>

definition exponentPart :: "string \<Rightarrow> int \<times> string" where
  "exponentPart s =
     (case s of
        [] \<Rightarrow> (0, s)
      | c # r \<Rightarrow>
          if c = CHR ''e'' \<or> c = CHR ''E''
          then (let (neg, t) = stripSign r; ds = takeWhile isDigit t
                in if ds = [] then (0, s)
                   else ((if neg then - int (decValue ds) else int (decValue ds)),
                         dropWhile isDigit t))
          else (0, s))"

definition scale10 :: "rat \<Rightarrow> int \<Rightarrow> rat" where
  "scale10 x e = (if 0 \<le> e then x * 10 ^ nat e else x / 10 ^ nat (- e))"

text \<open>The longest prefix of \<open>u\<close> that is an unsigned decimal literal (digits, an optional
  fraction, an optional exponent), with its value and the text that follows.\<close>

definition decimalPrefix :: "string \<Rightarrow> (rat \<times> string) option" where
  "decimalPrefix u =
     (let ip = takeWhile isDigit u; r1 = dropWhile isDigit u;
          dot = (r1 \<noteq> [] \<and> hd r1 = CHR ''.'');
          fp = (if dot then takeWhile isDigit (tl r1) else []);
          r2 = (if dot then dropWhile isDigit (tl r1) else r1)
      in if ip = [] \<and> fp = [] then None
         else (let (e, r3) = exponentPart r2
               in Some (scale10 (of_nat (decValue (ip @ fp)) / 10 ^ length fp) e, r3)))"

definition parseFloat :: "string \<Rightarrow> jsnum" where
  "parseFloat s =
     (let (neg, u) = stripSign (dropWhile isSpace s)
      in if take 8 u = ''Infinity'' then (if neg then NInf else PInf)
         else (case decimalPrefix u of
                 None \<Rightarrow> NaN
               | Some (v, r) \<Rightarrow> Fin (signed neg v)))"

text \<open>\<^verbatim>\<open>Number(s)\<close>: the whole trimmed text must be a numeric literal; the empty text
  is 0; \<^verbatim>\<open>0x\<close>, \<^verbatim>\<open>0o\<close> and \<^verbatim>\<open>0b\<close> literals take no sign.\<close>

definition radixLiteral :: "string \<Rightarrow> jsnum option" where
  "radixLiteral t =
     (let p = take 2 t; ds = drop 2 t
      in if p = ''0x'' \<or> p = ''0X''
         then Some (if ds \<noteq> [] \<and> list_all isHexDigit ds
                    then Fin (of_nat (radixValue 16 hexVal ds)) else NaN)
         else if p = ''0o'' \<or> p = ''0O''
         then Some (if ds \<noteq> [] \<and> list_all (\<lambda>c. isDigit c \<and> digitVal c < 8) ds
                    then Fin (of_nat (radixValue 8 digitVal ds)) else NaN)
         else if p = ''0b'' \<or> p = ''0B''
         then Some (if ds \<noteq> [] \<and> list_all (\<lambda>c. isDigit c \<and> digitVal c < 2) ds
                    then Fin (of_nat (radixValue 2 digitVal ds)) else NaN)
         else None)"

definition Number :: "string \<Rightarrow> jsnum" where
  "Number s =
     (let t = trim s
      in if t = [] then Fin 0
         else (case radixLiteral t of
                 Some v \<Rightarrow> v
               | None \<Rightarrow>
                   (let (neg, u) = stripSign t
                    in if u = ''Infinity'' then (if neg then NInf else PInf)
                       else (case decimalPrefix u of
                               None \<Rightarrow> NaN
                             | Some (v, r) \<Rightarrow> if r = [] then Fin (signed neg v) else NaN))))"

definition isNaN :: "jsnum \<Rightarrow> bool" where
  "isNaN x = (x = NaN)"

text \<open>\<^verbatim>\<open>Number.prototype.toString\<close>: an integer prints as its decimal digits, a
  fraction as integer part, point and fraction digits.\<close>

function showNat :: "nat \<Rightarrow> string" where
  "showNat n = (if n < 10 then [char_of (48 + n)]
                else showNat (n div 10) @ [char_of (48 + n mod 10)])"
  by pat_completeness auto
termination
  by (relation "measure id") auto

declare showNat.simps [simp del]

fun fracDigits :: "nat \<Rightarrow> rat \<Rightarrow> string" where
  "fracDigits 0 f = []"
| "fracDigits (Suc k) f =
     (if f = 0 then []
      else char_of (48 + nat \<lfloor>f * 10\<rfloor>) # fracDigits k (f * 10 - of_int \<lfloor>f * 10\<rfloor>))"

definition showAbs :: "rat \<Rightarrow> string" where
  "showAbs r =
     (let f = r - of_int \<lfloor>r\<rfloor>
      in showNat (nat \<lfloor>r\<rfloor>) @ (if f = 0 then [] else CHR ''.'' # fracDigits 20 f))"

definition numToString :: "jsnum \<Rightarrow> string" where
  "numToString x =
     (case x of
        NaN \<Rightarrow> ''NaN''
      | PInf \<Rightarrow> ''Infinity''
      | NInf \<Rightarrow> ''-Infinity''
      | Fin r \<Rightarrow> if r < 0 then CHR ''-'' # showAbs (- r) else showAbs r)"

text \<open>
  The numbers on which the model of \<^verbatim>\<open>toString\<close>, \<^verbatim>\<open>parseInt\<close> and \<^verbatim>\<open>parseFloat\<close> is
  exact: \<^verbatim>\<open>Number.isSafeInteger\<close>, and the decimals of at most six fraction digits below
  one billion in size (at most 15 significant digits, printed without an exponent).
\<close>

definition isSafeInteger :: "jsnum \<Rightarrow> bool" where
  "isSafeInteger x =
     (case x of Fin r \<Rightarrow> r = of_int \<lfloor>r\<rfloor> \<and> \<bar>r\<bar> \<le> 9007199254740991 | _ \<Rightarrow> False)"

definition shortDecimal :: "jsnum \<Rightarrow> bool" where
  "shortDecimal x =
     (case x of
        Fin r \<Rightarrow> r * 1000000 = of_int \<lfloor>r * 1000000\<rfloor> \<and> \<bar>r\<bar> < 1000000000
      | _ \<Rightarrow> False)"

section \<open>Column letters\<close>

text \<open>
  \<^verbatim>\<open>getColumnLetter\<close> of \<^verbatim>\<open>services/googleSheets.ts\<close>:
  \<^verbatim>\<open>while (col >= 0) { letter = String.fromCharCode(65 + (col % 26)) + letter;
                        col = Math.floor(col / 26) - 1; }\<close>
\<close>

function getColumnLetter_loop :: "int \<Rightarrow> string \<Rightarrow> string" where
  "getColumnLetter_loop col letter =
     (if col \<ge> 0
      then getColumnLetter_loop (col div 26 - 1) (char_of (65 + col mod 26) # letter)
      else letter)"
  by pat_completeness auto
termination
  by (relation "measure (\<lambda>(col, letter). nat (col + 1))") auto

declare getColumnLetter_loop.simps [simp del]

definition getColumnLetter :: "int \<Rightarrow> string" where
  "getColumnLetter col = getColumnLetter_loop col []"

text \<open>The zero-based index a column name stands for: its letters are the digits 1 to 26
  of a numeral of base 26 without a zero, A standing for 1.\<close>

definition letterValue :: "char \<Rightarrow> int" where
  "letterValue c = of_char c - 64"

definition columnIndex :: "string \<Rightarrow> int" where
  "columnIndex s = foldl (\<lambda>a c. 26 * a + letterValue c) 0 s - 1"

text \<open>
  The single-cell writer \<^verbatim>\<open>updateCell(row, col, value)\<close> of the second service file
  derives the letter by \<^verbatim>\<open>String.fromCharCode(65 + col)\<close> and writes to the range
  \<^verbatim>\<open>`${colLetter}${row}`\<close>.
\<close>

definition updateCell_colLetter :: "nat \<Rightarrow> string" where
  "updateCell_colLetter col = [char_of (65 + col)]"

definition updateCell_range :: "nat \<Rightarrow> nat \<Rightarrow> string" where
  "updateCell_range row col = updateCell_colLetter col @ showNat row"

section \<open>Date keys\<close>

text \<open>
  \<^verbatim>\<open>parseDate(date)\<close> builds the query key \<^verbatim>\<open>`${date.getMonth() + 1}/${date.getDate()}`\<close>
  from the zero-based month and the day of month of the selected calendar date.
\<close>

definition parseDate :: "nat \<Rightarrow> nat \<Rightarrow> string" where
  "parseDate month0 day = showNat (month0 + 1) @ ''/'' @ showNat day"

text \<open>
  \<^verbatim>\<open>normalizeDate\<close> of \<^verbatim>\<open>services/googleSheets.ts\<close>.  The argument is a cell, so it
  may be \<^verbatim>\<open>undefined\<close>.  After \<^verbatim>\<open>includes('/')\<close> the split on \<^verbatim>\<open>'/'\<close> has at least two
  parts; \<^verbatim>\<open>parts[0]\<close> and \<^verbatim>\<open>parts[1]\<close> are read with \<open>cell\<close> all the same.
\<close>

definition lastToken :: "string \<Rightarrow> string" where
  "lastToken dateStr =
     (let dateParts = split CHR '' '' dateStr
      in if length dateParts > 1 then last dateParts else dateStr)"

definition normalizeDate_ts :: "string option \<Rightarrow> string" where
  "normalizeDate_ts c =
     (if \<not> truthy c then []
      else (let dateStr = lastToken (trim (orEmpty c))
            in if includesChar dateStr CHR ''/''
               then (let parts = split CHR ''/'' dateStr
                     in numToString (parseInt (toStr (cell parts 0))) @ ''/''
                        @ numToString (parseInt (toStr (cell parts 1))))
               else dateStr))"

text \<open>
  \<^verbatim>\<open>normalizeDate\<close> of the second service file (the class with \<^verbatim>\<open>parseExerciseRow\<close>
  and \<^verbatim>\<open>updateCell\<close>): only a date of exactly three parts is rewritten, to
  \<^verbatim>\<open>`${parts[0]}/${parts[1]}`\<close>, the parts kept as they are written.
\<close>

definition normalizeDate_svc :: "string option \<Rightarrow> string" where
  "normalizeDate_svc c =
     (if \<not> truthy c then []
      else (let dateStr = lastToken (trim (orEmpty c));
                parts = split CHR ''/'' dateStr
            in if includesChar dateStr CHR ''/'' \<and> length parts = 3
               then orEmpty (cell parts 0) @ ''/'' @ orEmpty (cell parts 1)
               else dateStr))"

section \<open>Domain records\<close>

text \<open>
  The interfaces of \<^verbatim>\<open>types/workout.ts\<close>.  The notes of an exercise are optional
  (\<^verbatim>\<open>notes?: string\<close>) and are the field \<open>enotes\<close>, the notes of a cardio session are
  \<open>cnotes\<close> (the word itself is reserved by Isabelle), and the date of a workout record is
  \<open>wdate\<close>, since a field name is used once in a theory.
\<close>

record WorkoutSet =
  reps :: jsnum
  weight :: jsnum
  rir :: jsnum

record Exercise =
  name :: string
  sets :: "WorkoutSet list"
  enotes :: "string option"

record CardioSession =
  modality :: string
  minutes :: jsnum
  seconds :: jsnum
  rpe :: jsnum
  workRest :: string
  watts :: jsnum
  cnotes :: string

record WorkoutData =
  wdate :: string
  exercises :: "Exercise list"
  cardio :: CardioSession

section \<open>Decoding session-log rows\<close>

text \<open>
  The set triplets of a session-log row, as \<^verbatim>\<open>getWorkoutData\<close> of
  \<^verbatim>\<open>services/googleSheets.ts\<close> and \<^verbatim>\<open>parseExerciseRow\<close> of the second service file
  list them.
\<close>

definition setGroups :: "(nat \<times> nat \<times> nat) list" where
  "setGroups = [(14, 15, 16), (17, 18, 19), (20, 21, 22)]"

definition parsedSet :: "string list \<Rightarrow> nat \<times> nat \<times> nat \<Rightarrow> WorkoutSet" where
  "parsedSet row g =
     (case g of (r, w, i) \<Rightarrow>
        \<lparr> reps = orZero (parseInt (toStr (cell row r))),
          weight = orZero (parseFloat (toStr (cell row w))),
          rir = orZero (parseInt (toStr (cell row i))) \<rparr>)"

definition repsNumeric :: "string list \<Rightarrow> nat \<times> nat \<times> nat \<Rightarrow> bool" where
  "repsNumeric row g =
     (case g of (r, w, i) \<Rightarrow>
        truthy (cell row r) \<and> \<not> isNaN (Number (toStr (cell row r))))"

definition groupSets :: "string list \<Rightarrow> WorkoutSet list" where
  "groupSets row = map (parsedSet row) (filter (repsNumeric row) setGroups)"

text \<open>The loop body of \<^verbatim>\<open>getWorkoutData\<close> (\<^verbatim>\<open>googleSheets.ts\<close>) for one matching row.\<close>

definition exerciseOfRow_ts :: "string list \<Rightarrow> Exercise option" where
  "exerciseOfRow_ts row =
     (if \<not> truthy (cell row 8) then None
      else Some \<lparr> name = trim (orEmpty (cell row 8)), sets = groupSets row,
                  enotes = Some (orEmpty (cell row 37)) \<rparr>)"

text \<open>\<^verbatim>\<open>parseExerciseRow\<close> of the second service file: the same, without notes.\<close>

definition parseExerciseRow :: "string list \<Rightarrow> Exercise option" where
  "parseExerciseRow row =
     (if \<not> truthy (cell row 8) then None
      else Some \<lparr> name = trim (orEmpty (cell row 8)), sets = groupSets row, enotes = None \<rparr>)"

text \<open>
  \<^verbatim>\<open>processWorkoutRows\<close> of \<^verbatim>\<open>services/googleSheets.js\<close> reads the number of sets from
  column N (13) and then that many triplets from column O (14) on; a triplet is kept
  when any of its three cells holds data.
\<close>

definition anyData :: "string list \<Rightarrow> nat \<Rightarrow> bool" where
  "anyData row setNum =
     (truthy (cell row (14 + setNum * 3)) \<or> truthy (cell row (14 + setNum * 3 + 1))
      \<or> truthy (cell row (14 + setNum * 3 + 2)))"

definition totalSets :: "string list \<Rightarrow> nat" where
  "totalSets row =
     (case orZero (parseInt (toStr (cell row 13))) of Fin r \<Rightarrow> nat \<lceil>r\<rceil> | _ \<Rightarrow> 0)"

definition rowSets_js :: "string list \<Rightarrow> WorkoutSet list" where
  "rowSets_js row =
     map (\<lambda>setNum. parsedSet row (14 + setNum * 3, 14 + setNum * 3 + 1, 14 + setNum * 3 + 2))
       (filter (anyData row) [0 ..< totalSets row])"

definition exerciseOfRow_js :: "string list \<Rightarrow> Exercise option" where
  "exerciseOfRow_js row =
     (if \<not> truthy (cell row 8) then None
      else if rowSets_js row = [] then None
      else Some \<lparr> name = orEmpty (cell row 8), sets = rowSets_js row,
                  enotes = Some (orEmpty (cell row 37)) \<rparr>)"

text \<open>
  Shorthand for stating what the decoders return: a cell that holds data
  (it is there and not empty), a cell that holds a number (and \<^verbatim>\<open>Number\<close> reads one
  from it), and the set read from the three cells from \<open>i\<close> on, reps and rir with
  \<^verbatim>\<open>parseInt\<close>, weight with \<^verbatim>\<open>parseFloat\<close>, and 0 for what does not parse.
\<close>

abbreviation holdsData :: "string list \<Rightarrow> nat \<Rightarrow> bool" where
  "holdsData row i \<equiv> (case cell row i of Some s \<Rightarrow> s \<noteq> [] | None \<Rightarrow> False)"




text \<open>
  \<^verbatim>\<open>matchesDate(rowDate, targetDate)\<close> of \<^verbatim>\<open>googleSheets.js\<close>: the first match of
  \<^verbatim>\<open>/(\d{1,2}\/\d{1,2})/\<close> in the target is compared with the row's date, trimmed,
  without a leading \<^verbatim>\<open>/^[A-Za-z]{3}\s+/\<close> and without a trailing \<^verbatim>\<open>/\/\d{4}$/\<close>.
\<close>

definition upTo2Digits :: "string \<Rightarrow> string" where
  "upTo2Digits s = takeWhile isDigit (take 2 s)"

definition dateMatchHere :: "string \<Rightarrow> string option" where
  "dateMatchHere s =
     (let m2 = take 2 s; m1 = take 1 s
      in if length m2 = 2 \<and> list_all isDigit m2 \<and> take 1 (drop 2 s) = ''/''
            \<and> upTo2Digits (drop 3 s) \<noteq> []
         then Some (m2 @ ''/'' @ upTo2Digits (drop 3 s))
         else if length m1 = 1 \<and> list_all isDigit m1 \<and> take 1 (drop 1 s) = ''/''
            \<and> upTo2Digits (drop 2 s) \<noteq> []
         then Some (m1 @ ''/'' @ upTo2Digits (drop 2 s))
         else None)"

fun firstDateMatch :: "string \<Rightarrow> string option" where
  "firstDateMatch [] = None"
| "firstDateMatch (c # cs) =
     (case dateMatchHere (c # cs) of Some m \<Rightarrow> Some m | None \<Rightarrow> firstDateMatch cs)"

definition isLetter :: "char \<Rightarrow> bool" where
  "isLetter c = ((65 \<le> (of_char c :: nat) \<and> (of_char c :: nat) \<le> 90)
                 \<or> (97 \<le> (of_char c :: nat) \<and> (of_char c :: nat) \<le> 122))"

definition dropWeekday :: "string \<Rightarrow> string" where
  "dropWeekday s =
     (if length (take 3 s) = 3 \<and> list_all isLetter (take 3 s)
         \<and> takeWhile isSpace (drop 3 s) \<noteq> []
      then dropWhile isSpace (drop 3 s) else s)"

definition dropYear :: "string \<Rightarrow> string" where
  "dropYear s =
     (let n = length s
      in if 5 \<le> n \<and> take 1 (drop (n - 5) s) = ''/'' \<and> list_all isDigit (drop (n - 4) s)
         then take (n - 5) s else s)"

definition matchesDate :: "string option \<Rightarrow> string \<Rightarrow> bool" where
  "matchesDate rowDate targetDate =
     (if \<not> truthy rowDate then False
      else (case firstDateMatch targetDate of
              None \<Rightarrow> False
            | Some m \<Rightarrow> dropYear (dropWeekday (trim (orEmpty rowDate))) = m))"

definition processWorkoutRows :: "string list list \<Rightarrow> string \<Rightarrow> Exercise list" where
  "processWorkoutRows rows targetDate =
     List.map_filter exerciseOfRow_js
       (filter (\<lambda>row. matchesDate (cell row 6) targetDate) (drop 1 rows))"

text \<open>
  \<^verbatim>\<open>parseWorkoutRow\<close> of \<^verbatim>\<open>types/workout.ts\<close>: triplets from column 13 on, a set for
  every triplet whose reps cell is non-empty.
\<close>

definition setColumns :: "(nat \<times> nat \<times> nat) list" where
  "setColumns = [(13, 14, 15), (16, 17, 18), (19, 20, 21)]"

definition parseWorkoutRow :: "string list \<Rightarrow> Exercise option" where
  "parseWorkoutRow row =
     (if \<not> truthy (cell row 8) then None
      else Some \<lparr> name = orEmpty (cell row 8),
                  sets = map (parsedSet row)
                           (filter (\<lambda>g. truthy (cell row (fst g))) setColumns),
                  enotes = Some (orEmpty (cell row 37)) \<rparr>)"

section \<open>Encoding rows\<close>

text \<open>
  \<^verbatim>\<open>formatSheetData\<close> of \<^verbatim>\<open>types/workout.ts\<close>: one 38-cell row for every set, with the
  set at cells 13 to 15, and one 65-cell cardio row after them.
\<close>

definition setRow :: "WorkoutSet \<Rightarrow> string list" where
  "setRow s = (replicate 38 [])[13 := numToString (reps s), 14 := numToString (weight s),
                                 15 := numToString (rir s)]"

definition cardioCells :: "CardioSession \<Rightarrow> string list" where
  "cardioCells c = (replicate 65 [])[8 := modality c, 11 := numToString (minutes c),
       12 := numToString (seconds c), 16 := numToString (rpe c), 17 := workRest c,
       24 := numToString (watts c), 64 := cnotes c]"

definition formatSheetData :: "WorkoutSet list \<Rightarrow> CardioSession \<Rightarrow> string list list" where
  "formatSheetData exerciseData cardioData = map setRow exerciseData @ [cardioCells cardioData]"

text \<open>
  The rows \<^verbatim>\<open>updateWorkoutData\<close> of \<^verbatim>\<open>googleSheets.js\<close> appends.  An assignment to
  an index at the end of a JavaScript array extends it; the set cells are written in
  increasing order from index 14, so the array never gets a hole.
\<close>

definition assign :: "string list \<Rightarrow> nat \<Rightarrow> string \<Rightarrow> string list" where
  "assign row i v =
     (if i < length row then row[i := v] else row @ replicate (i - length row) [] @ [v])"

fun assignSets :: "string list \<Rightarrow> nat \<Rightarrow> WorkoutSet list \<Rightarrow> string list" where
  "assignSets row index [] = row"
| "assignSets row index (s # ss) =
     assignSets
       (assign (assign (assign row (14 + index * 3) (numToString (reps s)))
                  (14 + index * 3 + 1) (numToString (weight s)))
          (14 + index * 3 + 2) (numToString (rir s)))
       (Suc index) ss"

definition appendRow :: "string \<Rightarrow> Exercise \<Rightarrow> string list" where
  "appendRow formattedDate exercise =
     assign
       (assignSets
          ((replicate 38 [])[6 := formattedDate, 8 := name exercise,
                             13 := showNat (length (sets exercise))])
          0 (sets exercise))
       37 (orEmpty (enotes exercise))"

definition cardioAppendRow :: "string \<Rightarrow> CardioSession \<Rightarrow> string list" where
  "cardioAppendRow formattedDate c = (replicate 65 [])[5 := formattedDate, 8 := modality c,
       11 := numToString (minutes c), 12 := numToString (seconds c),
       16 := numToString (rpe c), 17 := workRest c, 24 := numToString (watts c),
       64 := cnotes c]"

text \<open>\<^verbatim>\<open>Object.values(cardio).some(v => v)\<close>: some field is a non-empty string or a
  number other than 0 and \<^verbatim>\<open>NaN\<close>.\<close>

definition someValue :: "CardioSession \<Rightarrow> bool" where
  "someValue c = (truthy (Some (modality c)) \<or> numTruthy (minutes c) \<or> numTruthy (seconds c)
                  \<or> numTruthy (rpe c) \<or> truthy (Some (workRest c)) \<or> numTruthy (watts c)
                  \<or> truthy (Some (cnotes c)))"

section \<open>The remote table\<close>

text \<open>
  The spreadsheet service is outside the program.  A request either gets a response with
  \<^verbatim>\<open>ok\<close> set (for a read, with the grid of cells; a missing \<^verbatim>\<open>values\<close> field is the
  empty grid, as \<^verbatim>\<open>values || []\<close> reads it), a response with another status, or no
  response at all (\<^verbatim>\<open>fetch\<close> rejects).  The functions below take the service as a
  function from requests to responses and return, besides their result, the write
  requests they issued, in order.
\<close>

datatype request =
    Get string
  | Put string string
  | BatchUpdate "(string \<times> string) list"
  | Append string "string list list"

datatype response = Ok "string list list" | NotOk nat | Rejected

datatype failure =
    NoAuthToken | AuthExpired | RequestFailed | NetworkFailure | OfflineNoCache

type_synonym remote = "request \<Rightarrow> response"

text \<open>A range in a named sheet: \<^verbatim>\<open>'workout log'!A:AL\<close>, the sheet name in single quotes.\<close>

definition sheetRange :: "string \<Rightarrow> string \<Rightarrow> string" where
  "sheetRange sheet cells = [CHR 0x27] @ sheet @ [CHR 0x27] @ ''!'' @ cells"

definition hasToken :: "string option \<Rightarrow> bool" where
  "hasToken token = truthy token"

definition fetchSheetData_ts :: "string option \<Rightarrow> remote \<Rightarrow> string \<Rightarrow> failure + string list list" where
  "fetchSheetData_ts token remote rng =
     (if \<not> hasToken token then Inl NoAuthToken
      else (case remote (Get rng) of
              Ok values \<Rightarrow> Inr values
            | NotOk status \<Rightarrow> Inl RequestFailed
            | Rejected \<Rightarrow> Inl NetworkFailure))"

text \<open>\<^verbatim>\<open>fetchSheetData\<close> of the second service file removes the stored token on a 401;
  the second component of the result is the token afterwards.\<close>

definition fetchSheetData_svc ::
  "string option \<Rightarrow> remote \<Rightarrow> string \<Rightarrow> (failure + string list list) \<times> string option" where
  "fetchSheetData_svc token remote rng =
     (if \<not> hasToken token then (Inl NoAuthToken, token)
      else (case remote (Get rng) of
              Ok values \<Rightarrow> (Inr values, token)
            | NotOk status \<Rightarrow>
                if status = 401 then (Inl AuthExpired, None) else (Inl RequestFailed, token)
            | Rejected \<Rightarrow> (Inl NetworkFailure, token)))"

section \<open>Reading a day\<close>

definition emptyCardio :: CardioSession where
  "emptyCardio = \<lparr> modality = [], minutes = Fin 0, seconds = Fin 0, rpe = Fin 0,
                    workRest = [], watts = Fin 0, cnotes = [] \<rparr>"

definition cardioOfRow :: "string list \<Rightarrow> CardioSession" where
  "cardioOfRow cardioRow =
     \<lparr> modality = orEmpty (cell cardioRow 8),
       minutes = orZero (parseInt (toStr (cell cardioRow 11))),
       seconds = orZero (parseInt (toStr (cell cardioRow 12))),
       rpe = orZero (parseInt (toStr (cell cardioRow 16))),
       workRest = orEmpty (cell cardioRow 17),
       watts = orZero (parseInt (toStr (cell cardioRow 24))),
       cnotes = orEmpty (cell cardioRow 63) \<rparr>"

definition rowHasDate_ts :: "nat \<Rightarrow> string \<Rightarrow> string list \<Rightarrow> bool" where
  "rowHasDate_ts col parsedDate row =
     (truthy (cell row col) \<and> normalizeDate_ts (cell row col) = parsedDate)"

definition rowHasDate_svc :: "nat \<Rightarrow> string \<Rightarrow> string list \<Rightarrow> bool" where
  "rowHasDate_svc col parsedDate row =
     (truthy (cell row col) \<and> normalizeDate_svc (cell row col) = parsedDate)"

definition cardioFor :: "(string list \<Rightarrow> bool) \<Rightarrow> string list list \<Rightarrow> CardioSession" where
  "cardioFor matches cardioRows =
     (case List.find matches cardioRows of
        Some cardioRow \<Rightarrow> cardioOfRow cardioRow
      | None \<Rightarrow> emptyCardio)"

text \<open>
  \<^verbatim>\<open>getWorkoutData(date)\<close> of \<^verbatim>\<open>googleSheets.ts\<close>.  \<open>parsedDate\<close> is the key
  \<^verbatim>\<open>parseDate(new Date(date))\<close>.  An error of either read is thrown on.
\<close>

definition getWorkoutData_ts ::
  "string option \<Rightarrow> remote \<Rightarrow> string \<Rightarrow> string \<Rightarrow> failure + WorkoutData" where
  "getWorkoutData_ts token remote parsedDate date =
     (case fetchSheetData_ts token remote (sheetRange ''workout log'' ''A:AL'') of
        Inl e \<Rightarrow> Inl e
      | Inr workoutRows \<Rightarrow>
          (case fetchSheetData_ts token remote (sheetRange ''cardio log'' ''A:BM'') of
             Inl e \<Rightarrow> Inl e
           | Inr cardioRows \<Rightarrow>
               Inr \<lparr> wdate = date,
                     exercises = List.map_filter exerciseOfRow_ts
                                   (filter (rowHasDate_ts 6 parsedDate) workoutRows),
                     cardio = cardioFor (rowHasDate_ts 5 parsedDate) cardioRows \<rparr>))"

text \<open>\<^verbatim>\<open>getWorkoutData(date)\<close> of the second service file, with the token afterwards.\<close>

definition getWorkoutData_svc ::
  "string option \<Rightarrow> remote \<Rightarrow> string \<Rightarrow> string \<Rightarrow> (failure + WorkoutData) \<times> string option" where
  "getWorkoutData_svc token remote parsedDate date =
     (case fetchSheetData_svc token remote (sheetRange ''workout log'' ''A:AL'') of
        (Inl e, token') \<Rightarrow> (Inl e, token')
      | (Inr workoutRows, token') \<Rightarrow>
          (case fetchSheetData_svc token' remote (sheetRange ''cardio log'' ''A:BM'') of
             (Inl e, token'') \<Rightarrow> (Inl e, token'')
           | (Inr cardioRows, token'') \<Rightarrow>
               (Inr \<lparr> wdate = date,
                      exercises = List.map_filter parseExerciseRow
                                    (filter (rowHasDate_svc 6 parsedDate) workoutRows),
                      cardio = cardioFor (rowHasDate_svc 5 parsedDate) cardioRows \<rparr>,
                token'')))"

section \<open>Updating a day\<close>

fun findIndex :: "('a \<Rightarrow> bool) \<Rightarrow> 'a list \<Rightarrow> nat option" where
  "findIndex p [] = None"
| "findIndex p (x # xs) =
     (if p x then Some 0 else (case findIndex p xs of None \<Rightarrow> None | Some i \<Rightarrow> Some (Suc i)))"

subsection \<open>\<^verbatim>\<open>updateWorkoutData\<close> of \<^verbatim>\<open>googleSheets.ts\<close>\<close>

text \<open>
  The rows of the query date are collected into the object \<^verbatim>\<open>dateRows\<close>, keyed by
  \<^verbatim>\<open>row[8]?.trim().toLowerCase()\<close> (the key of a row without that cell is the text
  \<^verbatim>\<open>undefined\<close>), with the one-based row number as value; a later row of the same key
  replaces an earlier one.
\<close>

definition rowKey :: "string list \<Rightarrow> string" where
  "rowKey row = (case cell row 8 of None \<Rightarrow> ''undefined'' | Some s \<Rightarrow> toLowerCase (trim s))"

fun dateRows_from :: "string \<Rightarrow> nat \<Rightarrow> string list list \<Rightarrow> (string \<rightharpoonup> nat) \<Rightarrow> (string \<rightharpoonup> nat)" where
  "dateRows_from parsedDate index [] acc = acc"
| "dateRows_from parsedDate index (row # rows) acc =
     dateRows_from parsedDate (Suc index) rows
       (if normalizeDate_ts (cell row 6) = parsedDate then acc(rowKey row \<mapsto> index + 1) else acc)"

definition dateRows :: "string \<Rightarrow> string list list \<Rightarrow> (string \<rightharpoonup> nat)" where
  "dateRows parsedDate workoutRows = dateRows_from parsedDate 0 workoutRows Map.empty"

text \<open>
  \<^verbatim>\<open>dateRows\<close> starts as the object literal \<^verbatim>\<open>{}\<close>, so a lookup of a key it does not
  hold falls through to \<^verbatim>\<open>Object.prototype\<close>.  The lookup key is lower case, and the
  only lower-case names found there are \<^verbatim>\<open>constructor\<close> and \<^verbatim>\<open>__proto__\<close>; an assignment
  of a number to \<^verbatim>\<open>__proto__\<close> stores nothing.  \<open>Inherited\<close> carries the text such a
  value prints as in a range.
\<close>

datatype rowref = NoRow | RowIndex nat | Inherited string

definition lookupRow :: "(string \<rightharpoonup> nat) \<Rightarrow> string \<Rightarrow> rowref" where
  "lookupRow rows k =
     (if k = ''__proto__'' then Inherited ''[object Object]''
      else (case rows k of
              Some i \<Rightarrow> RowIndex i
            | None \<Rightarrow> if k = ''constructor''
                      then Inherited ''function Object() { [native code] }'' else NoRow))"

definition rowText :: "rowref \<Rightarrow> string" where
  "rowText r = (case r of NoRow \<Rightarrow> ''undefined'' | RowIndex i \<Rightarrow> showNat i | Inherited s \<Rightarrow> s)"

definition setUpdates_ts :: "string \<Rightarrow> nat \<Rightarrow> WorkoutSet \<Rightarrow> (string \<times> string) list" where
  "setUpdates_ts rowIndex setIndex s =
     (let baseCol = 14 + int setIndex * 3
      in [(sheetRange ''workout log'' (getColumnLetter baseCol @ rowIndex), numToString (reps s)),
          (sheetRange ''workout log'' (getColumnLetter (baseCol + 1) @ rowIndex), numToString (weight s)),
          (sheetRange ''workout log'' (getColumnLetter (baseCol + 2) @ rowIndex), numToString (rir s))])"

definition exerciseUpdates_ts :: "(string \<rightharpoonup> nat) \<Rightarrow> Exercise \<Rightarrow> (string \<times> string) list" where
  "exerciseUpdates_ts rows exercise =
     (case lookupRow rows (toLowerCase (name exercise)) of
        NoRow \<Rightarrow> []
      | r \<Rightarrow>
          concat (map (\<lambda>(setIndex, s). setUpdates_ts (rowText r) setIndex s)
                    (enumerate 0 (sets exercise)))
          @ (if truthy (enotes exercise)
             then [(sheetRange ''workout log'' (''AL'' @ rowText r), orEmpty (enotes exercise))]
             else []))"

definition cardioUpdates_ts :: "nat \<Rightarrow> CardioSession \<Rightarrow> (string \<times> string) list" where
  "cardioUpdates_ts cardioRowIndex c =
     map (\<lambda>(col, v). (sheetRange ''cardio log'' (getColumnLetter col @ showNat (cardioRowIndex + 1)), v))
       [(8, modality c), (11, numToString (minutes c)), (12, numToString (seconds c)),
        (16, numToString (rpe c)), (17, workRest c), (24, numToString (watts c)),
        (63, cnotes c)]"

text \<open>\<^verbatim>\<open>batchUpdate\<close>: nothing is sent for an empty list; otherwise one request, which
  fails without a token, on a response that is not ok, and when the request is
  rejected.\<close>

definition batchUpdate :: "string option \<Rightarrow> remote \<Rightarrow> (string \<times> string) list \<Rightarrow> (failure + unit) \<times> request list" where
  "batchUpdate token remote updates =
     (if updates = [] then (Inr (), [])
      else if \<not> hasToken token then (Inl NoAuthToken, [])
      else (case remote (BatchUpdate updates) of
              Ok values \<Rightarrow> (Inr (), [BatchUpdate updates])
            | NotOk status \<Rightarrow> (Inl RequestFailed, [BatchUpdate updates])
            | Rejected \<Rightarrow> (Inl NetworkFailure, [BatchUpdate updates])))"

definition updateWorkoutData_ts ::
  "string option \<Rightarrow> remote \<Rightarrow> string \<Rightarrow> WorkoutData \<Rightarrow> (failure + unit) \<times> request list" where
  "updateWorkoutData_ts token remote parsedDate workoutData =
     (case fetchSheetData_ts token remote (sheetRange ''workout log'' ''A:AL'') of
        Inl e \<Rightarrow> (Inl e, [])
      | Inr workoutRows \<Rightarrow>
          (case batchUpdate token remote
                  (concat (map (exerciseUpdates_ts (dateRows parsedDate workoutRows))
                             (exercises workoutData))) of
             (Inl e, sent) \<Rightarrow> (Inl e, sent)
           | (Inr u, sent) \<Rightarrow>
               (case fetchSheetData_ts token remote (sheetRange ''cardio log'' ''A:BM'') of
                  Inl e \<Rightarrow> (Inl e, sent)
                | Inr cardioRows \<Rightarrow>
                    (case findIndex (\<lambda>row. normalizeDate_ts (cell row 5) = parsedDate) cardioRows of
                       None \<Rightarrow> (Inr (), sent)
                     | Some cardioRowIndex \<Rightarrow>
                         (case batchUpdate token remote
                                 (cardioUpdates_ts cardioRowIndex (cardio workoutData)) of
                            (r, sent') \<Rightarrow> (r, sent @ sent'))))))"

subsection \<open>\<^verbatim>\<open>updateWorkoutData\<close> of the second service file\<close>

text \<open>
  The row of an exercise is found by \<^verbatim>\<open>row[6] === parsedDate && row[8] === exercise.name\<close>,
  on the cells as they are stored.  Every cell of a found row is written by its own
  \<^verbatim>\<open>updateCell\<close> call, all started before any is awaited.  A call without a token sends
  nothing and rejects; the response of a call that was sent is not looked at, so only a
  rejected \<^verbatim>\<open>fetch\<close> fails it.  \<^verbatim>\<open>Promise.all\<close> fails when one of the calls failed.
\<close>

definition updateCell :: "string option \<Rightarrow> remote \<Rightarrow> nat \<Rightarrow> nat \<Rightarrow> string \<Rightarrow> (failure + unit) \<times> request list" where
  "updateCell token remote row col v =
     (if \<not> hasToken token then (Inl NoAuthToken, [])
      else (case remote (Put (updateCell_range row col) v) of
              Rejected \<Rightarrow> (Inl NetworkFailure, [Put (updateCell_range row col) v])
            | _ \<Rightarrow> (Inr (), [Put (updateCell_range row col) v])))"

fun promiseAll :: "((failure + unit) \<times> request list) list \<Rightarrow> (failure + unit) \<times> request list" where
  "promiseAll [] = (Inr (), [])"
| "promiseAll ((r, sent) # ps) =
     (case promiseAll ps of
        (r', sent') \<Rightarrow> ((case r of Inl e \<Rightarrow> Inl e | Inr u \<Rightarrow> r'), sent @ sent'))"

definition setCells_svc :: "nat \<Rightarrow> nat \<Rightarrow> WorkoutSet \<Rightarrow> (nat \<times> nat \<times> string) list" where
  "setCells_svc rowIndex setIndex s =
     (let baseCol = setIndex * 3 + 14
      in [(rowIndex + 1, baseCol, numToString (reps s)),
          (rowIndex + 1, baseCol + 1, numToString (weight s)),
          (rowIndex + 1, baseCol + 2, numToString (rir s))])"

definition findExerciseRow_svc :: "string \<Rightarrow> string list list \<Rightarrow> Exercise \<Rightarrow> nat option" where
  "findExerciseRow_svc parsedDate workoutRows exercise =
     findIndex (\<lambda>row. cell row 6 = Some parsedDate \<and> cell row 8 = Some (name exercise)) workoutRows"

definition exerciseUpdate_svc ::
  "string option \<Rightarrow> remote \<Rightarrow> string \<Rightarrow> string list list \<Rightarrow> Exercise \<Rightarrow> (failure + unit) \<times> request list" where
  "exerciseUpdate_svc token remote parsedDate workoutRows exercise =
     (case findExerciseRow_svc parsedDate workoutRows exercise of
        None \<Rightarrow> (Inr (), [])
      | Some rowIndex \<Rightarrow>
          promiseAll
            (map (\<lambda>(row, col, v). updateCell token remote row col v)
               (concat (map (\<lambda>(setIndex, s). setCells_svc rowIndex setIndex s)
                          (enumerate 0 (sets exercise))))))"

fun exerciseLoop_svc ::
  "string option \<Rightarrow> remote \<Rightarrow> string \<Rightarrow> string list list \<Rightarrow> Exercise list \<Rightarrow> (failure + unit) \<times> request list" where
  "exerciseLoop_svc token remote parsedDate workoutRows [] = (Inr (), [])"
| "exerciseLoop_svc token remote parsedDate workoutRows (exercise # rest) =
     (case exerciseUpdate_svc token remote parsedDate workoutRows exercise of
        (Inl e, sent) \<Rightarrow> (Inl e, sent)
      | (Inr u, sent) \<Rightarrow>
          (case exerciseLoop_svc token remote parsedDate workoutRows rest of
             (r, sent') \<Rightarrow> (r, sent @ sent')))"

definition cardioCells_svc :: "nat \<Rightarrow> CardioSession \<Rightarrow> (nat \<times> nat \<times> string) list" where
  "cardioCells_svc cardioRowIndex c =
     map (\<lambda>(col, v). (cardioRowIndex + 1, col, v))
       [(8, modality c), (11, numToString (minutes c)), (12, numToString (seconds c)),
        (16, numToString (rpe c)), (17, workRest c), (24, numToString (watts c)),
        (63, cnotes c)]"

definition updateWorkoutData_svc ::
  "string option \<Rightarrow> remote \<Rightarrow> string \<Rightarrow> WorkoutData \<Rightarrow> (failure + unit) \<times> request list \<times> string option" where
  "updateWorkoutData_svc token remote parsedDate workoutData =
     (case fetchSheetData_svc token remote (sheetRange ''workout log'' ''A:AL'') of
        (Inl e, token') \<Rightarrow> (Inl e, [], token')
      | (Inr workoutRows, token') \<Rightarrow>
          (case exerciseLoop_svc token' remote parsedDate workoutRows (exercises workoutData) of
             (Inl e, sent) \<Rightarrow> (Inl e, sent, token')
           | (Inr u, sent) \<Rightarrow>
               (case fetchSheetData_svc token' remote (sheetRange ''cardio log'' ''A:BM'') of
                  (Inl e, token'') \<Rightarrow> (Inl e, sent, token'')
                | (Inr cardioRows, token'') \<Rightarrow>
                    (case findIndex (\<lambda>row. cell row 5 = Some parsedDate) cardioRows of
                       None \<Rightarrow> (Inr (), sent, token'')
                     | Some cardioRowIndex \<Rightarrow>
                         (case promiseAll
                                 (map (\<lambda>(row, col, v). updateCell token'' remote row col v)
                                    (cardioCells_svc cardioRowIndex (cardio workoutData))) of
                            (r, sent') \<Rightarrow> (r, sent @ sent', token''))))))"

subsection \<open>\<^verbatim>\<open>updateWorkoutData\<close> of \<^verbatim>\<open>googleSheets.js\<close>\<close>

text \<open>
  This variant appends rows and keeps a queue of changes, the list stored under
  \<^verbatim>\<open>syncQueue\<close>.  Offline, the change is queued.  Online, a failed append of the
  session-log rows, and any rejected request, is thrown: the handler queues the change
  and throws on.  A response to the cardio append that is not ok is logged to the
  console and nothing else.  \<open>formattedDate\<close> is the key \<^verbatim>\<open>formatDate(date)\<close>.
\<close>

datatype saved = OfflineQueued | Success

definition isOk :: "response \<Rightarrow> bool" where
  "isOk r = (case r of Ok values \<Rightarrow> True | _ \<Rightarrow> False)"

definition updateWorkoutData_js ::
  "bool \<Rightarrow> remote \<Rightarrow> (string \<times> WorkoutData) list \<Rightarrow> string \<Rightarrow> string \<Rightarrow> WorkoutData
     \<Rightarrow> (failure + saved) \<times> (string \<times> WorkoutData) list \<times> request list" where
  "updateWorkoutData_js onLine remote syncQueue formattedDate date workoutData =
     (if \<not> onLine then (Inr OfflineQueued, syncQueue @ [(date, workoutData)], [])
      else
        (let workoutAppend = Append (sheetRange ''workout log'' ''A:Z'')
                               (map (appendRow formattedDate) (exercises workoutData));
             cardioAppend = Append (sheetRange ''cardio log'' ''A:BM'')
                              [cardioAppendRow formattedDate (cardio workoutData)];
             sent1 = (if exercises workoutData \<noteq> [] then [workoutAppend] else []);
             sent2 = (if someValue (cardio workoutData) then [cardioAppend] else [])
         in if exercises workoutData \<noteq> [] \<and> remote workoutAppend = Rejected
            then (Inl NetworkFailure, syncQueue @ [(date, workoutData)], sent1)
            else if exercises workoutData \<noteq> [] \<and> \<not> isOk (remote workoutAppend)
            then (Inl RequestFailed, syncQueue @ [(date, workoutData)], sent1)
            else if someValue (cardio workoutData) \<and> remote cardioAppend = Rejected
            then (Inl NetworkFailure, syncQueue @ [(date, workoutData)], sent1 @ sent2)
            else (Inr Success, syncQueue, sent1 @ sent2)))"

subsection \<open>The cache of \<^verbatim>\<open>googleSheets.js\<close>\<close>

text \<open>
  \<^verbatim>\<open>googleSheets.js\<close> keeps a snapshot per date in local storage, under the key
  \<^verbatim>\<open>workout_<date>\<close>.  An entry holds the JSON text of a record or of \<^verbatim>\<open>null\<close>, the
  two kinds of value the program stores there; \<open>Some None\<close> is the entry \<^verbatim>\<open>null\<close>.
  \<^verbatim>\<open>getCachedData(date)\<close> is \<^verbatim>\<open>cached ? JSON.parse(cached) : null\<close>: the parsed entry,
  and \<^verbatim>\<open>null\<close> when there is none.
\<close>

definition getCachedData :: "(string \<rightharpoonup> 'r option) \<Rightarrow> string \<Rightarrow> 'r option" where
  "getCachedData cache date = (case cache date of Some parsed \<Rightarrow> parsed | None \<Rightarrow> None)"

text \<open>
  \<^verbatim>\<open>getWorkoutData(date)\<close>.  Offline it answers from the snapshot, when
  \<^verbatim>\<open>getCachedData\<close> gives a value that is not \<^verbatim>\<open>null\<close> (\<^verbatim>\<open>if (cached)\<close>), or throws.
  Online, \<open>fetched\<close> stands for what fetching and decoding the two sheets gives: a result,
  which is stored and returned, or an error, for which the snapshot is tried before the
  error is thrown.
\<close>

definition getWorkoutData_js ::
  "bool \<Rightarrow> (string \<rightharpoonup> 'r option) \<Rightarrow> (failure + 'r) \<Rightarrow> string
     \<Rightarrow> (failure + 'r) \<times> (string \<rightharpoonup> 'r option)" where
  "getWorkoutData_js onLine cache fetched date =
     (if \<not> onLine
      then (case getCachedData cache date of
              Some cached \<Rightarrow> (Inr cached, cache)
            | None \<Rightarrow> (Inl OfflineNoCache, cache))
      else (case fetched of
              Inr result \<Rightarrow> (Inr result, cache(date \<mapsto> Some result))
            | Inl e \<Rightarrow>
                (case getCachedData cache date of
                   Some cached \<Rightarrow> (Inr cached, cache)
                 | None \<Rightarrow> (Inl e, cache))))"

text \<open>
  The two methods on the whole of the local storage the service uses: the queue under
  the key \<^verbatim>\<open>syncQueue\<close> and the snapshots.  \<^verbatim>\<open>updateWorkoutData\<close> reads and writes the
  queue and no other key; \<^verbatim>\<open>getWorkoutData\<close> reads and writes the snapshots and no other
  key.
\<close>

record localStorage =
  queue :: "(string \<times> WorkoutData) list"
  snapshots :: "string \<rightharpoonup> WorkoutData option"

definition updateWorkoutData_local ::
  "bool \<Rightarrow> remote \<Rightarrow> localStorage \<Rightarrow> string \<Rightarrow> string \<Rightarrow> WorkoutData
     \<Rightarrow> (failure + saved) \<times> localStorage \<times> request list" where
  "updateWorkoutData_local onLine remote store formattedDate date workoutData =
     (case updateWorkoutData_js onLine remote (queue store) formattedDate date workoutData of
        (result, syncQueue, sent) \<Rightarrow> (result, store\<lparr> queue := syncQueue \<rparr>, sent))"

definition getWorkoutData_local ::
  "bool \<Rightarrow> localStorage \<Rightarrow> (failure + WorkoutData) \<Rightarrow> string
     \<Rightarrow> (failure + WorkoutData) \<times> localStorage" where
  "getWorkoutData_local onLine store fetched date =
     (case getWorkoutData_js onLine (snapshots store) fetched date of
        (result, cache) \<Rightarrow> (result, store\<lparr> snapshots := cache \<rparr>))"

section \<open>The workout tracker component\<close>

text \<open>
  The component that coordinates reads, writes and the queue of pending changes
  (\<^verbatim>\<open>WorkoutTracker\<close>).  Its state is the React state (\<open>isOnline\<close>, \<open>date\<close>, \<open>loading\<close>,
  \<open>error\<close>, \<open>workout\<close>, \<open>dataSource\<close>, \<open>pendingChanges\<close>, \<open>isSaving\<close>) and the two kinds of
  entries it keeps in local storage: the snapshots \<^verbatim>\<open>workout_<date>\<close>
  (\<open>storedWorkouts\<close>) and the list \<^verbatim>\<open>pendingChanges\<close> (\<open>storedPending\<close>, \<open>None\<close> when the
  key is not set).  \<open>calls\<close> records the calls made to the sheets service, in order.
  A workout is any value of the type \<open>'w\<close>, \<^verbatim>\<open>null\<close> included.  The fields of a change
  are \<open>c_date\<close>, \<open>c_workout\<close> and \<open>c_timestamp\<close>.
\<close>

record 'w change =
  c_date :: string
  c_workout :: 'w
  c_timestamp :: string

datatype 'w call = GetWorkoutData string | SaveWorkout 'w | SaveChange "'w change"

record 'w tracker =
  isOnline :: bool
  date :: string
  loading :: bool
  error :: "string option"
  workout :: 'w
  dataSource :: string
  pendingChanges :: "'w change list"
  isSaving :: bool
  storedWorkouts :: "string \<rightharpoonup> 'w"
  storedPending :: "'w change list option"
  calls :: "'w call list"

text \<open>
  The sheets service the component imports: \<open>getWorkout\<close> answers
  \<^verbatim>\<open>getWorkoutData(date)\<close> with the data or \<open>None\<close> when it throws, \<open>saveWorkout\<close>
  tells whether \<^verbatim>\<open>saveWorkoutData(x)\<close> succeeds.  Both may depend on the calls made
  before.
\<close>

record 'w service =
  getWorkout :: "'w call list \<Rightarrow> string \<Rightarrow> 'w option"
  saveWorkout :: "'w call list \<Rightarrow> 'w call \<Rightarrow> bool"

definition loadWorkoutData :: "'w service \<Rightarrow> 'w tracker \<Rightarrow> 'w tracker" where
  "loadWorkoutData svc st =
     (let st1 = st\<lparr> loading := True, error := None \<rparr>;
          cachedData = storedWorkouts st (date st);
          st2 =
            (if \<not> isOnline st \<and> cachedData \<noteq> None
             then st1\<lparr> workout := the cachedData, dataSource := ''cache'' \<rparr>
             else if isOnline st
             then (case getWorkout svc (calls st) (date st) of
                     Some data \<Rightarrow>
                       st1\<lparr> workout := data,
                            storedWorkouts := (storedWorkouts st)(date st \<mapsto> data),
                            dataSource := ''online'',
                            calls := calls st @ [GetWorkoutData (date st)] \<rparr>
                   | None \<Rightarrow>
                       st1\<lparr> error := Some (''Unable to load workout data. ''
                                             @ ''Please try again later.''),
                            calls := calls st @ [GetWorkoutData (date st)] \<rparr>)
             else st1)
      in st2\<lparr> loading := False \<rparr>)"

text \<open>The loop of \<^verbatim>\<open>syncPendingChanges\<close>: the changes are saved one after the other, and
  the first failure leaves the loop.  The result tells whether all were saved, and the
  calls made.\<close>

fun saveAll :: "'w service \<Rightarrow> 'w call list \<Rightarrow> 'w change list \<Rightarrow> bool \<times> 'w call list" where
  "saveAll svc history [] = (True, history)"
| "saveAll svc history (change # rest) =
     (if saveWorkout svc history (SaveChange change)
      then saveAll svc (history @ [SaveChange change]) rest
      else (False, history @ [SaveChange change]))"

definition syncPendingChanges :: "'w service \<Rightarrow> 'w tracker \<Rightarrow> 'w tracker" where
  "syncPendingChanges svc st =
     (if \<not> isOnline st \<or> pendingChanges st = [] then st
      else (case saveAll svc (calls st) (pendingChanges st) of
              (True, history) \<Rightarrow>
                (loadWorkoutData svc
                   (st\<lparr> isSaving := True, pendingChanges := [], storedPending := None,
                        calls := history \<rparr>))
                \<lparr> isSaving := False \<rparr>
            | (False, history) \<Rightarrow>
                st\<lparr> error := Some (''Failed to sync changes. ''
                                    @ ''Will retry when connection is available.''),
                    calls := history, isSaving := False \<rparr>))"

text \<open>\<^verbatim>\<open>handleSave(updatedWorkout)\<close>; \<open>now\<close> is the time stamp \<^verbatim>\<open>new Date().toISOString()\<close>.\<close>

definition handleSave :: "'w service \<Rightarrow> string \<Rightarrow> 'w \<Rightarrow> 'w tracker \<Rightarrow> 'w tracker" where
  "handleSave svc now updatedWorkout st =
     (if isOnline st
      then (if saveWorkout svc (calls st) (SaveWorkout updatedWorkout)
            then (loadWorkoutData svc
                    (st\<lparr> isSaving := True,
                         calls := calls st @ [SaveWorkout updatedWorkout] \<rparr>))
                 \<lparr> isSaving := False \<rparr>
            else st\<lparr> error := Some (''Failed to save changes. '' @ ''Please try again later.''),
                     calls := calls st @ [SaveWorkout updatedWorkout], isSaving := False \<rparr>)
      else (let newPendingChanges =
                  pendingChanges st
                  @ [\<lparr> c_date = date st, c_workout = updatedWorkout, c_timestamp = now \<rparr>]
            in st\<lparr> pendingChanges := newPendingChanges,
                   storedPending := Some newPendingChanges,
                   storedWorkouts := (storedWorkouts st)(date st \<mapsto> updatedWorkout),
                   workout := updatedWorkout, isSaving := False \<rparr>))"

subsection \<open>Sample states\<close>

text \<open>States and services on which the theorems below are evaluated: a tracker that is
  offline with nothing stored, a day with one exercise and a day without any, a tracker
  that is back online with two pending changes, a service that is down, and a service
  on which saving succeeds for one change only.\<close>

definition offlineTracker :: "WorkoutData option tracker" where
  "offlineTracker =
     \<lparr> isOnline = False, date = ''2024-03-14'', loading = False, error = None,
       workout = None, dataSource = ''online'', pendingChanges = [], isSaving = False,
       storedWorkouts = Map.empty, storedPending = None, calls = [] \<rparr>"

definition squatDay :: WorkoutData where
  "squatDay =
     \<lparr> wdate = ''2024-03-14'',
       exercises = [\<lparr> name = ''Squat'',
                      sets = [\<lparr> reps = Fin 5, weight = Fin 100, rir = Fin 2 \<rparr>],
                      enotes = Some [] \<rparr>],
       cardio = emptyCardio \<rparr>"

definition restDay :: WorkoutData where
  "restDay = \<lparr> wdate = ''2024-03-14'', exercises = [], cardio = emptyCardio \<rparr>"

definition change1 :: "WorkoutData option change" where
  "change1 = \<lparr> c_date = ''2024-03-14'', c_workout = Some squatDay,
               c_timestamp = ''2024-03-14T18:00:00.000Z'' \<rparr>"

definition change2 :: "WorkoutData option change" where
  "change2 = \<lparr> c_date = ''2024-03-15'', c_workout = None,
               c_timestamp = ''2024-03-15T18:00:00.000Z'' \<rparr>"

definition reconnectedTracker :: "WorkoutData option tracker" where
  "reconnectedTracker =
     offlineTracker\<lparr> isOnline := True, pendingChanges := [change1, change2],
                     storedPending := Some [change1, change2] \<rparr>"

definition serviceDown :: "'w service" where
  "serviceDown = \<lparr> getWorkout = (\<lambda>history d. None), saveWorkout = (\<lambda>history c. False) \<rparr>"

definition savesOnly :: "'w change \<Rightarrow> 'w service" where
  "savesOnly change =
     \<lparr> getWorkout = (\<lambda>history d. None), saveWorkout = (\<lambda>history c. c = SaveChange change) \<rparr>"

definition runDay :: WorkoutData where
  "runDay = squatDay\<lparr> cardio := emptyCardio\<lparr> modality := ''Run'', minutes := Fin 30 \<rparr> \<rparr>"

text \<open>A service that accepts the session-log rows and answers the cardio append with
  status 500, and a sheet whose only session-log row carries its date with the weekday,
  \<^verbatim>\<open>Thu 3/14\<close>.\<close>

definition cardioRefused :: remote where
  "cardioRefused req =
     (case req of
        Append rng rows \<Rightarrow> if rng = sheetRange ''cardio log'' ''A:BM'' then NotOk 500 else Ok []
      | _ \<Rightarrow> Ok [])"

definition weekdaySheet :: remote where
  "weekdaySheet req =
     (if req = Get (sheetRange ''workout log'' ''A:AL'')
      then Ok [replicate 6 [] @ [''Date'', [], ''Exercise''],
               replicate 6 [] @ [''Thu 3/14'', [], ''Squat''] @ replicate 5 []
                 @ [''5'', ''95'', ''3'']]
      else Ok [])"

text \<open>Session-log rows whose first triplet has weight and rir but no reps, and with four
  triplets under a set count of 4.\<close>

definition rowBlankReps :: "string list" where
  "rowBlankReps = replicate 8 [] @ [''Squat''] @ replicate 4 [] @ [''1'', [], ''100'', ''2'']"

definition rowFourSets :: "string list" where
  "rowFourSets = replicate 8 [] @ [''Squat''] @ replicate 4 []
                 @ [''4'', ''5'', ''100'', ''2'', ''5'', ''100'', ''2'', ''5'', ''100'', ''1'',
                    ''4'', ''100'', ''0'']"

section \<open>Printing and parsing numbers\<close>

text \<open>The digits \<^verbatim>\<open>toString\<close> prints for a safe integer are read back by \<^verbatim>\<open>parseInt\<close>
  as the same integer, and the digits it prints for a short decimal are read back by
  \<^verbatim>\<open>parseFloat\<close> as the same decimal.  The digits of a positive integer do not start
  with a zero.\<close>

lemma digit_char:
  "d < 10 \<Longrightarrow> isDigit (char_of (48 + d)) \<and> digitVal (char_of (48 + d)) = d"
  by (simp add: isDigit_def digitVal_def)

lemma radixValue_snoc: "radixValue r val (ds @ [c]) = r * radixValue r val ds + val c"
  by (simp add: radixValue_def)

lemma showNat_digits: "list_all isDigit (showNat n)"
proof (induction n rule: showNat.induct)
  case (1 n)
  show ?case
  proof (cases "n < 10")
    case True
    then show ?thesis by (subst showNat.simps) (simp add: digit_char)
  next
    case False
    with 1 have "list_all isDigit (showNat (n div 10))" by simp
    moreover have "isDigit (char_of (48 + n mod 10))" by (simp add: digit_char)
    ultimately show ?thesis using False by (subst showNat.simps) simp
  qed
qed

lemma showNat_nonempty: "showNat n \<noteq> []"
  by (subst showNat.simps) simp

lemma decValue_showNat: "decValue (showNat n) = n"
proof (induction n rule: showNat.induct)
  case (1 n)
  show ?case
  proof (cases "n < 10")
    case True
    then show ?thesis
      by (subst showNat.simps) (simp add: decValue_def radixValue_def digit_char)
  next
    case False
    with 1 have "decValue (showNat (n div 10)) = n div 10" by simp
    then show ?thesis using False
      by (subst showNat.simps) (simp add: decValue_def radixValue_snoc digit_char)
  qed
qed

lemma digit_not_space: "isDigit c \<Longrightarrow> \<not> isSpace c"
  by (auto simp: isDigit_def isSpace_def)

lemma digit_not_sign: "isDigit c \<Longrightarrow> c \<noteq> CHR ''-'' \<and> c \<noteq> CHR ''+''"
  by (auto simp: isDigit_def)

lemma digits_not_hex_prefix:
  "list_all isDigit ds \<Longrightarrow> take 2 ds \<noteq> ''0x'' \<and> take 2 ds \<noteq> ''0X''"
proof (cases ds)
  case Nil
  then show ?thesis by simp
next
  case (Cons a as)
  assume d: "list_all isDigit ds"
  show ?thesis
  proof (cases as)
    case Nil
    with Cons show ?thesis by simp
  next
    case (Cons b bs)
    with \<open>ds = a # as\<close> d have "isDigit b" by simp
    then have "b \<noteq> CHR ''x'' \<and> b \<noteq> CHR ''X''" by (auto simp: isDigit_def)
    with Cons \<open>ds = a # as\<close> show ?thesis by simp
  qed
qed

lemma digits_not_Infinity: "list_all isDigit ds \<Longrightarrow> take 8 ds \<noteq> ''Infinity''"
  by (cases ds) (auto simp: isDigit_def)

lemma digits_takeWhile: "list_all isDigit ds \<Longrightarrow> takeWhile isDigit ds = ds"
  by (simp add: list_all_iff)

lemma digits_dropWhile: "list_all isDigit ds \<Longrightarrow> dropWhile isDigit ds = []"
  by (simp add: list_all_iff)

lemma digits_dropSpace: "ds \<noteq> [] \<Longrightarrow> list_all isDigit ds \<Longrightarrow> dropWhile isSpace ds = ds"
  by (cases ds) (auto simp: digit_not_space)

lemma digits_stripSign: "ds \<noteq> [] \<Longrightarrow> list_all isDigit ds \<Longrightarrow> stripSign ds = (False, ds)"
  by (cases ds) (auto simp: stripSign_def digit_not_sign)

lemma parseInt_digits:
  assumes "ds \<noteq> []" and "list_all isDigit ds"
  shows "parseInt ds = Fin (of_nat (decValue ds))"
proof -
  note f = digits_dropSpace [OF assms] digits_stripSign [OF assms]
    digits_takeWhile [OF assms(2)] digits_not_hex_prefix [OF assms(2)]
  show ?thesis
    unfolding parseInt_def Let_def by (simp add: f assms(1) signed_def)
qed

lemma parseInt_minus_digits:
  assumes "ds \<noteq> []" and "list_all isDigit ds"
  shows "parseInt (CHR ''-'' # ds) = Fin (- of_nat (decValue ds))"
proof -
  have s: "dropWhile isSpace (CHR ''-'' # ds) = CHR ''-'' # ds"
    by (simp add: isSpace_def)
  have t: "stripSign (CHR ''-'' # ds) = (True, ds)"
    by (simp add: stripSign_def)
  note f = digits_takeWhile [OF assms(2)] digits_not_hex_prefix [OF assms(2)]
  show ?thesis
    unfolding parseInt_def Let_def s t by (simp add: f assms(1) signed_def)
qed

lemma exponentPart_Nil: "exponentPart [] = (0, [])"
  by (simp add: exponentPart_def)

lemma decimalPrefix_digits:
  assumes "ds \<noteq> []" and "list_all isDigit ds"
  shows "decimalPrefix ds = Some (of_nat (decValue ds), [])"
proof -
  note f = digits_takeWhile [OF assms(2)] digits_dropWhile [OF assms(2)]
  show ?thesis
    unfolding decimalPrefix_def Let_def
    by (simp add: f assms(1) exponentPart_Nil scale10_def)
qed

lemma parseFloat_digits:
  assumes "ds \<noteq> []" and "list_all isDigit ds"
  shows "parseFloat ds = Fin (of_nat (decValue ds))"
proof -
  note f = digits_dropSpace [OF assms] digits_stripSign [OF assms]
    digits_not_Infinity [OF assms(2)] decimalPrefix_digits [OF assms]
  show ?thesis
    unfolding parseFloat_def Let_def by (simp add: f signed_def)
qed

lemma parseFloat_minus_digits:
  assumes "ds \<noteq> []" and "list_all isDigit ds"
  shows "parseFloat (CHR ''-'' # ds) = Fin (- of_nat (decValue ds))"
proof -
  have s: "dropWhile isSpace (CHR ''-'' # ds) = CHR ''-'' # ds"
    by (simp add: isSpace_def)
  have t: "stripSign (CHR ''-'' # ds) = (True, ds)"
    by (simp add: stripSign_def)
  note f = digits_not_Infinity [OF assms(2)] decimalPrefix_digits [OF assms]
  show ?thesis
    unfolding parseFloat_def Let_def s t by (simp add: f signed_def)
qed

lemma showAbs_int: "0 \<le> m \<Longrightarrow> showAbs (of_int m) = showNat (nat m)"
  by (simp add: showAbs_def)

lemma numToString_nonneg: "0 \<le> k \<Longrightarrow> numToString (Fin (of_int k)) = showNat (nat k)"
  by (simp add: numToString_def showAbs_int)

lemma numToString_neg:
  assumes "k < 0"
  shows "numToString (Fin (of_int k)) = CHR ''-'' # showNat (nat (- k))"
proof -
  have "showAbs (- of_int k) = showNat (nat (- k))"
    using assms showAbs_int [of "- k"] by simp
  with assms show ?thesis by (simp add: numToString_def)
qed

lemma numToString_nonempty: "numToString x \<noteq> []"
  by (cases x) (simp_all add: numToString_def showAbs_def showNat_nonempty)

lemma parseInt_numToString: "parseInt (numToString (Fin (of_int k))) = Fin (of_int k)"
proof (cases "k < 0")
  case True
  have "parseInt (CHR ''-'' # showNat (nat (- k))) = Fin (- of_nat (decValue (showNat (nat (- k)))))"
    by (rule parseInt_minus_digits [OF showNat_nonempty showNat_digits])
  with True show ?thesis by (simp add: numToString_neg decValue_showNat)
next
  case False
  have "parseInt (showNat (nat k)) = Fin (of_nat (decValue (showNat (nat k))))"
    by (rule parseInt_digits [OF showNat_nonempty showNat_digits])
  with False show ?thesis by (simp add: numToString_nonneg decValue_showNat)
qed

lemma parseFloat_numToString: "parseFloat (numToString (Fin (of_int k))) = Fin (of_int k)"
proof (cases "k < 0")
  case True
  have "parseFloat (CHR ''-'' # showNat (nat (- k))) = Fin (- of_nat (decValue (showNat (nat (- k)))))"
    by (rule parseFloat_minus_digits [OF showNat_nonempty showNat_digits])
  with True show ?thesis by (simp add: numToString_neg decValue_showNat)
next
  case False
  have "parseFloat (showNat (nat k)) = Fin (of_nat (decValue (showNat (nat k))))"
    by (rule parseFloat_digits [OF showNat_nonempty showNat_digits])
  with False show ?thesis by (simp add: numToString_nonneg decValue_showNat)
qed


lemma radixValue_from:
  "foldl (\<lambda>a c. r * a + val c) a ds = a * r ^ length ds + radixValue r val ds"
proof (induction ds arbitrary: a)
  case Nil
  show ?case by (simp add: radixValue_def)
next
  case (Cons c cs)
  from Cons [of "r * a + val c"] Cons [of "val c"]
  show ?case by (simp add: radixValue_def algebra_simps)
qed

lemma decValue_Cons: "decValue (c # ds) = digitVal c * 10 ^ length ds + decValue ds"
  using radixValue_from [of 10 digitVal "digitVal c" ds]
  by (simp add: decValue_def radixValue_def)

lemma decValue_append: "decValue (xs @ ys) = decValue xs * 10 ^ length ys + decValue ys"
  using radixValue_from [of 10 digitVal "decValue xs" ys]
  by (simp add: decValue_def radixValue_def)

lemma fracDigits_value:
  fixes f :: rat
  assumes "0 \<le> f" and "f < 1" and "k \<le> n" and "f * 10 ^ k = of_int j"
  shows "list_all isDigit (fracDigits n f)
       \<and> of_nat (decValue (fracDigits n f)) = f * 10 ^ length (fracDigits n f)
       \<and> (f \<noteq> 0 \<longrightarrow> fracDigits n f \<noteq> [])"
  using assms
proof (induction n arbitrary: f k j)
  case 0
  then have "f = of_int j" by simp
  with "0.prems"(1,2) have "f = 0" by auto
  then show ?case by (simp add: decValue_def radixValue_def)
next
  case (Suc n)
  show ?case
  proof (cases "f = 0")
    case True
    then show ?thesis by (simp add: decValue_def radixValue_def)
  next
    case False
    define d where "d = \<lfloor>f * 10\<rfloor>"
    define f' where "f' = f * 10 - of_int d"
    have d0: "0 \<le> d" using Suc.prems(1) by (simp add: d_def)
    have "f * 10 < 10" using Suc.prems(2) by simp
    then have d9: "d < 10" by (simp add: d_def floor_less_iff)
    have f'0: "0 \<le> f'" by (simp add: f'_def d_def)
    have f'1: "f' < 1" unfolding f'_def d_def by linarith
    have kpos: "k \<noteq> 0"
    proof
      assume "k = 0"
      with Suc.prems(4) have "f = of_int j" by simp
      with Suc.prems(1,2) have "f = 0" by auto
      with False show False by simp
    qed
    then obtain k' where k': "k = Suc k'" by (cases k) auto
    have "f' * 10 ^ k' = f * 10 ^ k - of_int d * 10 ^ k'"
      by (simp add: f'_def k' algebra_simps)
    also have "\<dots> = of_int (j - d * 10 ^ k')"
      by (simp add: Suc.prems(4))
    finally have int': "f' * 10 ^ k' = of_int (j - d * 10 ^ k')" .
    from Suc.prems(3) k' have "k' \<le> n" by simp
    from Suc.IH [OF f'0 f'1 this int']
    have ih: "list_all isDigit (fracDigits n f')"
      "of_nat (decValue (fracDigits n f')) = f' * 10 ^ length (fracDigits n f')"
      by simp_all
    have nd: "nat d < 10" using d0 d9 by simp
    have unf: "fracDigits (Suc n) f = char_of (48 + nat d) # fracDigits n f'"
      using False by (simp add: d_def f'_def)
    have "of_nat (decValue (fracDigits (Suc n) f))
            = of_nat (nat d) * 10 ^ length (fracDigits n f') + f' * 10 ^ length (fracDigits n f')"
      unfolding unf by (simp add: decValue_Cons digit_char [OF nd] ih(2))
    also have "\<dots> = f * 10 ^ length (fracDigits (Suc n) f)"
      unfolding unf using d0 by (simp add: f'_def algebra_simps)
    finally have v: "of_nat (decValue (fracDigits (Suc n) f)) = f * 10 ^ length (fracDigits (Suc n) f)" .
    from ih(1) digit_char [OF nd] have "list_all isDigit (fracDigits (Suc n) f)"
      unfolding unf by simp
    moreover have "fracDigits (Suc n) f \<noteq> []"
      unfolding unf by simp
    ultimately show ?thesis using v by blast
  qed
qed

lemma not_digit_point: "\<not> isDigit CHR ''.''"
  by (simp add: isDigit_def)

lemma decimalPrefix_point:
  assumes "ip \<noteq> []" and "list_all isDigit ip" and "list_all isDigit fd"
  shows "decimalPrefix (ip @ CHR ''.'' # fd)
           = Some (of_nat (decValue (ip @ fd)) / 10 ^ length fd, [])"
proof -
  have t: "takeWhile isDigit (ip @ CHR ''.'' # fd) = ip"
    using assms(2) by (simp add: list_all_iff not_digit_point)
  have d: "dropWhile isDigit (ip @ CHR ''.'' # fd) = CHR ''.'' # fd"
    using assms(2) by (simp add: list_all_iff not_digit_point)
  note f = digits_takeWhile [OF assms(3)] digits_dropWhile [OF assms(3)]
  show ?thesis
    unfolding decimalPrefix_def Let_def t d
    by (simp add: f assms(1) exponentPart_Nil scale10_def)
qed

lemma leading_digit:
  assumes "ip \<noteq> []" and "list_all isDigit ip"
  shows "dropWhile isSpace (ip @ s) = ip @ s" and "stripSign (ip @ s) = (False, ip @ s)"
    and "(take 8 (ip @ s) = ''Infinity'') = False"
proof -
  from assms obtain c cs where ip: "ip = c # cs" and c: "isDigit c"
    by (cases ip) auto
  from c have i: "c \<noteq> CHR ''I''" by (auto simp: isDigit_def)
  from c show "dropWhile isSpace (ip @ s) = ip @ s"
    by (simp add: ip digit_not_space)
  from c show "stripSign (ip @ s) = (False, ip @ s)"
    by (simp add: ip stripSign_def digit_not_sign)
  from i show "(take 8 (ip @ s) = ''Infinity'') = False"
    by (simp add: ip)
qed

lemma parseFloat_point:
  assumes "ip \<noteq> []" and "list_all isDigit ip" and "list_all isDigit fd"
  shows "parseFloat (ip @ CHR ''.'' # fd) = Fin (of_nat (decValue (ip @ fd)) / 10 ^ length fd)"
  unfolding parseFloat_def Let_def leading_digit [OF assms(1,2)] prod.case if_False
    decimalPrefix_point [OF assms]
  by (simp add: signed_def)

lemma parseFloat_minus_point:
  assumes "ip \<noteq> []" and "list_all isDigit ip" and "list_all isDigit fd"
  shows "parseFloat (CHR ''-'' # ip @ CHR ''.'' # fd)
           = Fin (- (of_nat (decValue (ip @ fd)) / 10 ^ length fd))"
proof -
  have s: "dropWhile isSpace (CHR ''-'' # ip @ CHR ''.'' # fd) = CHR ''-'' # ip @ CHR ''.'' # fd"
    by (simp add: isSpace_def)
  have t: "stripSign (CHR ''-'' # ip @ CHR ''.'' # fd) = (True, ip @ CHR ''.'' # fd)"
    by (simp add: stripSign_def)
  show ?thesis
    unfolding parseFloat_def Let_def s t prod.case leading_digit [OF assms(1,2)] if_False
      decimalPrefix_point [OF assms]
    by (simp add: signed_def)
qed

lemma parseFloat_showAbs:
  fixes r :: rat
  assumes "0 \<le> r" and "r * 1000000 = of_int j"
  shows "parseFloat (showAbs r) = Fin r \<and> parseFloat (CHR ''-'' # showAbs r) = Fin (- r)"
proof -
  define a where "a = nat \<lfloor>r\<rfloor>"
  define f where "f = r - of_int \<lfloor>r\<rfloor>"
  have a: "of_nat a = (of_int \<lfloor>r\<rfloor> :: rat)"
    using assms(1) by (simp add: a_def)
  have r: "r = of_nat a + f"
    by (simp add: a f_def)
  show ?thesis
  proof (cases "f = 0")
    case True
    then have sa: "showAbs r = showNat a"
      by (simp add: showAbs_def f_def a_def)
    from True r have e: "of_nat a = r" by simp
    show ?thesis
      unfolding sa
      using parseFloat_digits [OF showNat_nonempty showNat_digits, of a]
        parseFloat_minus_digits [OF showNat_nonempty showNat_digits, of a]
      by (simp add: decValue_showNat e)
  next
    case False
    define fd where "fd = fracDigits 20 f"
    have sa: "showAbs r = showNat a @ CHR ''.'' # fd"
      using False by (simp add: showAbs_def f_def [symmetric] a_def fd_def Let_def)
    have f0: "0 \<le> f" and f1: "f < 1"
      unfolding f_def by linarith+
    have "f * 10 ^ 6 = of_int (j - \<lfloor>r\<rfloor> * 1000000)"
      using assms(2) by (simp add: f_def algebra_simps)
    from fracDigits_value [OF f0 f1 _ this, of 20]
    have dg: "list_all isDigit fd" and v: "of_nat (decValue fd) = f * 10 ^ length fd"
      by (simp_all add: fd_def)
    have "(of_nat (decValue (showNat a @ fd)) :: rat) / 10 ^ length fd
            = (of_nat a * 10 ^ length fd + f * 10 ^ length fd) / 10 ^ length fd"
      by (simp add: decValue_append decValue_showNat v)
    also have "\<dots> = of_nat a + f"
      by (simp add: field_simps)
    finally have val: "(of_nat (decValue (showNat a @ fd)) :: rat) / 10 ^ length fd = r"
      by (simp add: r)
    show ?thesis
      unfolding sa
      using parseFloat_point [OF showNat_nonempty showNat_digits dg, of a]
        parseFloat_minus_point [OF showNat_nonempty showNat_digits dg, of a]
      by (simp add: val)
  qed
qed

lemma parseFloat_numToString_decimal:
  assumes "shortDecimal x"
  shows "orZero (parseFloat (numToString x)) = x"
proof -
  from assms obtain r where x: "x = Fin r" and i: "r * 1000000 = of_int \<lfloor>r * 1000000\<rfloor>"
    by (cases x) (auto simp: shortDecimal_def)
  show ?thesis
  proof (cases "r < 0")
    case False
    then have "0 \<le> r" by simp
    from parseFloat_showAbs [OF this i] False show ?thesis
      by (simp add: x numToString_def orZero_def)
  next
    case True
    then have p: "0 \<le> - r" by simp
    from i have "(- r) * 1000000 = of_int (- \<lfloor>r * 1000000\<rfloor>)" by simp
    from parseFloat_showAbs [OF p this] True show ?thesis
      by (simp add: x numToString_def orZero_def)
  qed
qed

lemma isSafeInteger_int: "isSafeInteger x \<Longrightarrow> \<exists>k. x = Fin (of_int k)"
  by (cases x) (auto simp: isSafeInteger_def)

lemma parseInt_numToString_integer:
  assumes "isSafeInteger x"
  shows "orZero (parseInt (numToString x)) = x"
proof -
  from isSafeInteger_int [OF assms] obtain k where "x = Fin (of_int k)" by blast
  then show ?thesis
    by (simp add: parseInt_numToString orZero_def)
qed

lemma showNat_zero: "showNat 0 = ''0''"
  by code_simp

lemma showNat_leading:
  "0 < n \<Longrightarrow> hd (showNat n) \<noteq> CHR ''0''"
proof (induction n rule: showNat.induct)
  case (1 n)
  show ?case
  proof (cases "n < 10")
    case True
    have "(of_char (char_of (48 + n) :: char) :: nat) = 48 + n"
      using True by simp
    moreover have "(of_char CHR ''0'' :: nat) = 48" by simp
    ultimately have "char_of (48 + n) \<noteq> CHR ''0''"
      using "1.prems" by (metis add_cancel_right_right less_numeral_extra(3))
    with True show ?thesis by (subst showNat.simps) simp
  next
    case False
    then have "0 < n div 10" by simp
    with "1.IH" False have "hd (showNat (n div 10)) \<noteq> CHR ''0''" by simp
    with False show ?thesis
      by (subst showNat.simps) (simp add: showNat_nonempty)
  qed
qed

section \<open>Date keys: the two normalizers\<close>

text \<open>
  For \<^verbatim>\<open>normalizeDate\<close> of \<^verbatim>\<open>googleSheets.ts\<close>: a date text whose last token is a month
  and a day in digits, with or without a year after a second slash, after any words
  that end with a space and before any white space, is normalized to the month and the
  day as numbers, printed without leading zeros (\<open>showNat_leading\<close>).
\<close>

lemma split_no_sep: "sep \<notin> set t \<Longrightarrow> split sep t = [t]"
  by (induction t) auto

lemma split_nonempty: "split sep s \<noteq> []"
  by (induction s) (auto split: list.splits)

lemma split_append_sep:
  "sep \<notin> set t \<Longrightarrow> last (split sep (xs @ sep # t)) = t \<and> 1 < length (split sep (xs @ sep # t))"
proof (induction xs)
  case Nil
  then show ?case by (simp add: split_no_sep)
next
  case (Cons x xs)
  then have ih: "last (split sep (xs @ sep # t)) = t" "1 < length (split sep (xs @ sep # t))"
    by simp_all
  then obtain p q ps where "split sep (xs @ sep # t) = p # q # ps"
    by (cases "split sep (xs @ sep # t)"; cases "tl (split sep (xs @ sep # t))") auto
  with ih show ?case by (auto split: list.splits)
qed

lemma split_first_two:
  "sep \<notin> set m \<Longrightarrow> sep \<notin> set d \<Longrightarrow>
     cell (split sep (m @ sep # d)) 0 = Some m \<and> cell (split sep (m @ sep # d)) 1 = Some d"
  by (induction m) (auto simp: cell_def split_no_sep split: list.splits)

lemma split_first_three:
  "sep \<notin> set m \<Longrightarrow> sep \<notin> set d \<Longrightarrow>
     cell (split sep (m @ sep # d @ sep # y)) 0 = Some m
   \<and> cell (split sep (m @ sep # d @ sep # y)) 1 = Some d"
proof (induction m)
  case Nil
  have "\<exists>ps. split sep (d @ sep # y) = d # ps" using Nil(2)
  proof (induction d)
    case Nil
    then show ?case by simp
  next
    case (Cons a d)
    then show ?case by (auto split: list.splits)
  qed
  then show ?case by (auto simp: cell_def)
next
  case (Cons a m)
  then show ?case by (auto simp: cell_def split: list.splits)
qed

lemma trim_token:
  assumes "tok \<noteq> []" and "\<forall>c \<in> set tok. \<not> isSpace c" and "\<forall>c \<in> set post. isSpace c"
  shows "trim (pre @ tok @ post) = dropWhile isSpace pre @ tok"
proof -
  from assms(1,2) obtain c cs where tok: "tok = c # cs" and c: "\<not> isSpace c"
    by (cases tok) auto
  from assms(1,2) have l: "\<not> isSpace (last tok)"
    by simp
  have fr: "dropWhile isSpace (pre @ tok @ post) = dropWhile isSpace pre @ tok @ post"
    using c by (simp add: dropWhile_append tok)
  have "rev tok \<noteq> []" and "\<not> isSpace (hd (rev tok))"
    using assms(1) l by (simp_all add: hd_rev)
  then have bk: "dropWhile isSpace (rev tok @ ys) = rev tok @ ys" for ys
    by (cases "rev tok") auto
  have "dropWhile isSpace (rev (dropWhile isSpace pre @ tok @ post))
          = dropWhile isSpace (rev tok @ rev (dropWhile isSpace pre))"
    using assms(3) by (simp add: dropWhile_append)
  then show ?thesis
    by (simp add: trim_def fr bk)
qed

lemma dropWhile_ends_with:
  "dropWhile P (w @ [x]) = [] \<or> (\<exists>w'. dropWhile P (w @ [x]) = w' @ [x])"
  by (induction w) auto

lemma lastToken_trim:
  assumes "tok \<noteq> []" and "\<forall>c \<in> set tok. \<not> isSpace c" and "\<forall>c \<in> set post. isSpace c"
    and "pre = [] \<or> (\<exists>w. pre = w @ '' '')"
  shows "lastToken (trim (pre @ tok @ post)) = tok"
proof -
  have sp: "isSpace CHR '' ''" by (simp add: isSpace_def)
  with assms(2) have nosp: "CHR '' '' \<notin> set tok" by auto
  have "dropWhile isSpace pre = [] \<or> (\<exists>w'. dropWhile isSpace pre = w' @ '' '')"
  proof (cases "pre = []")
    case True
    then show ?thesis by simp
  next
    case False
    with assms(4) obtain w where "pre = w @ '' ''" by blast
    with dropWhile_ends_with [of isSpace w "CHR '' ''"] show ?thesis by simp
  qed
  then consider "dropWhile isSpace pre = []" | w' where "dropWhile isSpace pre = w' @ '' ''"
    by blast
  then show ?thesis
  proof cases
    case 1
    with trim_token [OF assms(1-3), of pre] have "trim (pre @ tok @ post) = tok" by simp
    then show ?thesis by (simp add: lastToken_def split_no_sep [OF nosp])
  next
    case 2
    with trim_token [OF assms(1-3), of pre]
    have "trim (pre @ tok @ post) = w' @ CHR '' '' # tok" by simp
    then show ?thesis
      using split_append_sep [OF nosp, of w'] by (simp add: lastToken_def)
  qed
qed

lemma numToString_nat: "numToString (Fin (of_nat n)) = showNat n"
  using numToString_nonneg [of "int n"] by simp

lemma digits_no_slash_space:
  "list_all isDigit ds \<Longrightarrow> CHR ''/'' \<notin> set ds \<and> (\<forall>c \<in> set ds. \<not> isSpace c)"
  by (auto simp: list_all_iff isDigit_def isSpace_def)

lemma normalizeDate_ts_month_day:
  assumes "m \<noteq> []" and "list_all isDigit m" and "d \<noteq> []" and "list_all isDigit d"
    and "rest = [] \<or> (\<exists>y. rest = CHR ''/'' # y \<and> (\<forall>c \<in> set y. \<not> isSpace c))"
    and "pre = [] \<or> (\<exists>w. pre = w @ '' '')"
    and "\<forall>c \<in> set post. isSpace c"
  shows "normalizeDate_ts (Some (pre @ (m @ CHR ''/'' # d @ rest) @ post))
           = showNat (decValue m) @ ''/'' @ showNat (decValue d)"
proof -
  let ?tok = "m @ CHR ''/'' # d @ rest"
  note dm = digits_no_slash_space [OF assms(2)]
  note dd = digits_no_slash_space [OF assms(4)]
  have slash: "\<not> isSpace CHR ''/''" by (simp add: isSpace_def)
  have tok_ne: "?tok \<noteq> []" by simp
  have tok_sp: "\<forall>c \<in> set ?tok. \<not> isSpace c"
    using dm dd assms(5) slash by auto
  have lt: "lastToken (trim (pre @ ?tok @ post)) = ?tok"
    by (rule lastToken_trim [OF tok_ne tok_sp assms(7) assms(6)])
  have parts: "cell (split CHR ''/'' ?tok) 0 = Some m \<and> cell (split CHR ''/'' ?tok) 1 = Some d"
  proof (cases "rest = []")
    case True
    with split_first_two [of "CHR ''/''" m d] dm dd show ?thesis by simp
  next
    case False
    with assms(5) obtain y where "rest = CHR ''/'' # y" by blast
    with split_first_three [of "CHR ''/''" m d y] dm dd show ?thesis by simp
  qed
  have inc: "includesChar ?tok CHR ''/''" by (simp add: includesChar_def)
  have tr: "truthy (Some (pre @ ?tok @ post))" by (simp add: truthy_def)
  show ?thesis
    unfolding normalizeDate_ts_def Let_def
    by (simp only: tr orEmpty_def option.case lt inc parts toStr_def
        parseInt_digits [OF assms(1,2)] parseInt_digits [OF assms(3,4)] numToString_nat)
      simp
qed

lemma normalizeDate_ts_samples:
  "normalizeDate_ts (Some ''Thu 12/12/2024'') = ''12/12''
   \<and> normalizeDate_ts (Some ''12/12'') = ''12/12''
   \<and> normalizeDate_ts (Some ''02/05'') = ''2/5''
   \<and> normalizeDate_ts (Some ''Thu 02/05/2024'') = ''2/5''"
  by code_simp

text \<open>
  Claim C4.  The normalizer trims, keeps the last token, and of a token with a slash keeps
  month and day without leading zeros and without the year.
  \<^verbatim>\<open>normalizeDate\<close> of \<^verbatim>\<open>googleSheets.ts\<close> does so (\<open>normalizeDate_ts_month_day\<close>,
  \<open>normalizeDate_ts_samples\<close>).
  \<^verbatim>\<open>normalizeDate\<close> of the second service file drops the weekday and the year but
  keeps month and day as they are written: the zero-padded \<^verbatim>\<open>02/05\<close> stays \<^verbatim>\<open>02/05\<close>,
  which never equals the query key \<^verbatim>\<open>2/5\<close> that \<^verbatim>\<open>parseDate\<close> builds for 5 February,
  so that file's \<^verbatim>\<open>getWorkoutData\<close> does not find a row dated so.
\<close>

theorem normalizeDate_svc_keeps_zero_padding:
  "normalizeDate_svc (Some ''02/05'') = ''02/05''
   \<and> normalizeDate_svc (Some ''Thu 02/05/2024'') = ''02/05''
   \<and> normalizeDate_svc (Some ''Thu 12/12/2024'') = ''12/12''
   \<and> normalizeDate_ts (Some ''02/05'') = ''2/5''
   \<and> parseDate 1 5 = ''2/5''
   \<and> rowHasDate_svc 6 (parseDate 1 5) (replicate 6 [] @ [''Wed 02/05'', [], ''Squat'']) = False
   \<and> rowHasDate_ts 6 (parseDate 1 5) (replicate 6 [] @ [''Wed 02/05'', [], ''Squat'']) = True"
  by code_simp

section \<open>Column letters: the two derivations\<close>

lemma getColumnLetter_samples:
  "getColumnLetter 0 = ''A'' \<and> getColumnLetter 25 = ''Z'' \<and> getColumnLetter 26 = ''AA''
   \<and> getColumnLetter 63 = ''BL'' \<and> getColumnLetter 64 = ''BM''"
  by code_simp

text \<open>For every index, the letters name the index in base 26 without a zero, and they are
  capital letters; so different indices get different names.\<close>

lemma foldl_base26:
  "foldl (\<lambda>a c. 26 * a + letterValue c) a s
     = a * 26 ^ length s + foldl (\<lambda>a c. 26 * a + letterValue c) 0 s"
proof (induction s arbitrary: a)
  case Nil
  show ?case by simp
next
  case (Cons c cs)
  from Cons [of "26 * a + letterValue c"] Cons [of "letterValue c"]
  show ?case by (simp add: algebra_simps)
qed

lemma letterValue_char_of:
  "0 \<le> m \<Longrightarrow> m < 26 \<Longrightarrow> letterValue (char_of (65 + m)) = m + 1"
  by (simp add: letterValue_def)

lemma base26_step:
  fixes q r :: int
  shows "q * 26 ^ Suc n + ((r + 1) * 26 ^ n + v) = (26 * q + r + 1) * 26 ^ n + v"
  by (simp add: algebra_simps)

lemma getColumnLetter_loop_value:
  "- 1 \<le> col \<Longrightarrow>
     foldl (\<lambda>a c. 26 * a + letterValue c) 0 (getColumnLetter_loop col letter)
       = (col + 1) * 26 ^ length letter + foldl (\<lambda>a c. 26 * a + letterValue c) 0 letter"
proof (induction col letter rule: getColumnLetter_loop.induct)
  case (1 col letter)
  show ?case
  proof (cases "0 \<le> col")
    case False
    with "1.prems" have "col = - 1" by simp
    then show ?thesis by (subst getColumnLetter_loop.simps) simp
  next
    case True
    define q where "q = col div 26"
    define r where "r = col mod 26"
    define c :: char where "c = char_of (65 + r)"
    have e: "26 * q + r = col"
      by (simp add: q_def r_def)
    have lv: "letterValue c = r + 1"
      unfolding c_def by (rule letterValue_char_of) (simp_all add: r_def)
    from True have "- 1 \<le> q - 1"
      by (simp add: q_def pos_imp_zdiv_nonneg_iff)
    with "1.IH" True have ih:
      "foldl (\<lambda>a c. 26 * a + letterValue c) 0 (getColumnLetter_loop (q - 1) (c # letter))
         = q * 26 ^ Suc (length letter)
           + foldl (\<lambda>a c. 26 * a + letterValue c) 0 (c # letter)"
      by (simp add: q_def r_def c_def)
    have hd: "foldl (\<lambda>a c. 26 * a + letterValue c) 0 (c # letter)
         = (r + 1) * 26 ^ length letter
           + foldl (\<lambda>a c. 26 * a + letterValue c) 0 letter"
      using foldl_base26 [of "letterValue c" letter] by (simp add: lv)
    have unf: "getColumnLetter_loop col letter = getColumnLetter_loop (q - 1) (c # letter)"
      using True by (subst getColumnLetter_loop.simps) (simp add: q_def r_def c_def)
    have "foldl (\<lambda>a c. 26 * a + letterValue c) 0 (getColumnLetter_loop col letter)
         = q * 26 ^ Suc (length letter)
           + ((r + 1) * 26 ^ length letter + foldl (\<lambda>a c. 26 * a + letterValue c) 0 letter)"
      by (simp only: unf ih hd)
    also have "\<dots> = (26 * q + r + 1) * 26 ^ length letter
           + foldl (\<lambda>a c. 26 * a + letterValue c) 0 letter"
      by (rule base26_step)
    finally show ?thesis by (simp only: e)
  qed
qed

lemma columnIndex_getColumnLetter: "0 \<le> col \<Longrightarrow> columnIndex (getColumnLetter col) = col"
  using getColumnLetter_loop_value [of col "[]"]
  by (simp add: columnIndex_def getColumnLetter_def)

lemma getColumnLetter_inj:
  "0 \<le> m \<Longrightarrow> 0 \<le> n \<Longrightarrow> getColumnLetter m = getColumnLetter n \<Longrightarrow> m = n"
  by (metis columnIndex_getColumnLetter)

lemma getColumnLetter_loop_letters:
  "list_all (\<lambda>c. 65 \<le> (of_char c :: int) \<and> (of_char c :: int) \<le> 90) letter \<Longrightarrow>
   list_all (\<lambda>c. 65 \<le> (of_char c :: int) \<and> (of_char c :: int) \<le> 90)
     (getColumnLetter_loop col letter)"
proof (induction col letter rule: getColumnLetter_loop.induct)
  case (1 col letter)
  show ?case
  proof (cases "0 \<le> col")
    case False
    with "1.prems" show ?thesis by (subst getColumnLetter_loop.simps) simp
  next
    case True
    have "65 \<le> (of_char (char_of (65 + col mod 26) :: char) :: int)
       \<and> (of_char (char_of (65 + col mod 26) :: char) :: int) \<le> 90"
      by simp
    with "1.prems" have
      "list_all (\<lambda>c. 65 \<le> (of_char c :: int) \<and> (of_char c :: int) \<le> 90)
         (char_of (65 + col mod 26) # letter)"
      by simp
    with "1.IH" True show ?thesis by (subst getColumnLetter_loop.simps) simp
  qed
qed

lemma getColumnLetter_letters:
  "list_all (\<lambda>c. 65 \<le> (of_char c :: int) \<and> (of_char c :: int) \<le> 90) (getColumnLetter col)"
  by (simp add: getColumnLetter_def getColumnLetter_loop_letters)

text \<open>
  Claim C9.  The column-letter derivation of the update path is the base-26 translation
  of a zero-based index: 0 is A, 25 is Z, 26 is AA, 63 is BL, 64 is BM.
  \<^verbatim>\<open>getColumnLetter\<close> of \<^verbatim>\<open>googleSheets.ts\<close> does that (\<open>getColumnLetter_samples\<close>,
  \<open>columnIndex_getColumnLetter\<close>).  The single-cell writer \<^verbatim>\<open>updateCell\<close> of the second
  service file derives the letter as \<^verbatim>\<open>String.fromCharCode(65 + col)\<close>, which is right up
  to column 25 only: column 26 gives \<^verbatim>\<open>[\<close>, and column 63, where its caller writes the
  cardio notes, gives the character of code 128, so the range written is not
  \<^verbatim>\<open>BL7\<close>.
\<close>

theorem updateCell_colLetter_past_Z:
  "updateCell_colLetter 25 = ''Z'' \<and> updateCell_colLetter 26 = ''[''
   \<and> updateCell_colLetter 63 = [CHR 0x80] \<and> updateCell_range 7 63 = [CHR 0x80, CHR ''7'']
   \<and> getColumnLetter 26 = ''AA'' \<and> getColumnLetter 63 = ''BL''"
  by code_simp

section \<open>Decoding the sets of a row\<close>





text \<open>\<^verbatim>\<open>processWorkoutRows\<close> skips the header row and keeps the rows whose date, without
  weekday and year, is the target date as it is written.\<close>

lemma matchesDate_samples:
  "matchesDate (Some ''Thu 3/14'') ''3/14'' \<and> matchesDate (Some '' 3/14/2024 '') ''3/14''
   \<and> \<not> matchesDate (Some ''03/14'') ''3/14'' \<and> \<not> matchesDate (Some ''3/14/24'') ''3/14''
   \<and> \<not> matchesDate None ''3/14'' \<and> \<not> matchesDate (Some ''3/14'') ''NaN/NaN''"
  by code_simp

lemma processWorkoutRows_sample:
  "processWorkoutRows [rowFourSets[6 := ''Thu 3/14''], rowBlankReps[6 := ''Thu 3/14''],
                       rowFourSets[6 := ''Fri 3/15'']] ''3/14''
     = [\<lparr> name = ''Squat'', sets = [\<lparr> reps = Fin 0, weight = Fin 100, rir = Fin 2 \<rparr>],
          enotes = Some [] \<rparr>]"
  by code_simp









text \<open>
  What \<^verbatim>\<open>Number\<close> takes for a number: the whole cell, white space at its ends apart, is
  a numeric literal.  A cell of white space only is the number 0 for \<^verbatim>\<open>Number\<close> and no
  number for \<^verbatim>\<open>parseInt\<close>.
\<close>

lemma number_samples:
  "Number ''5'' = Fin 5 \<and> Number '' 12 '' = Fin 12 \<and> Number ''abc'' = NaN
   \<and> Number ''5 reps'' = NaN \<and> Number ''8-10'' = NaN \<and> Number '' '' = Fin 0
   \<and> parseInt ''5 reps'' = Fin 5 \<and> parseInt '' '' = NaN"
  by code_simp

text \<open>A row without a name gives no exercise, in all decoders.\<close>

lemma unnamed_row_skipped:
  "\<not> holdsData row 8 \<Longrightarrow>
     exerciseOfRow_ts row = None \<and> parseExerciseRow row = None \<and> exerciseOfRow_js row = None
     \<and> parseWorkoutRow row = None"
  by (simp add: exerciseOfRow_ts_def parseExerciseRow_def exerciseOfRow_js_def
      parseWorkoutRow_def truthy_def split: option.splits)




section \<open>Encoding sets and decoding them again\<close>

lemma cell_setRow:
  "cell (setRow s) 13 = Some (numToString (reps s))
   \<and> cell (setRow s) 14 = Some (numToString (weight s))
   \<and> cell (setRow s) 15 = Some (numToString (rir s))
   \<and> cell (setRow s) 8 = Some [] \<and> cell (setRow s) 16 = Some [] \<and> cell (setRow s) 17 = Some []
   \<and> cell (setRow s) 18 = Some [] \<and> cell (setRow s) 19 = Some [] \<and> cell (setRow s) 20 = Some []
   \<and> cell (setRow s) 21 = Some [] \<and> cell (setRow s) 37 = Some []"
  by (simp add: cell_def setRow_def)

lemma cell_update_other: "i \<noteq> j \<Longrightarrow> cell (row[i := v]) j = cell row j"
  by (simp add: cell_def)

lemma cell_update_same: "i < length row \<Longrightarrow> cell (row[i := v]) i = Some v"
  by (simp add: cell_def)

lemma setRow_length: "length (setRow s) = 38"
  by (simp add: setRow_def)

lemma parseWorkoutRow_setRow: "parseWorkoutRow (setRow s) = None"
  by (simp add: parseWorkoutRow_def cell_setRow truthy_def)

text \<open>The cells of the set are where \<^verbatim>\<open>parseWorkoutRow\<close> reads them: with a name in
  cell 8 the row of a set would decode to that set.\<close>

lemma parseWorkoutRow_named_setRow:
  assumes "nm \<noteq> []" and "isSafeInteger (reps s)" and "shortDecimal (weight s)"
    and "isSafeInteger (rir s)"
  shows "parseWorkoutRow ((setRow s)[8 := nm])
           = Some \<lparr> name = nm, sets = [s], enotes = Some [] \<rparr>"
proof -
  let ?row = "(setRow s)[8 := nm]"
  have c8: "cell ?row 8 = Some nm"
    by (simp add: cell_update_same setRow_length)
  have c: "cell ?row 13 = Some (numToString (reps s))"
    "cell ?row 14 = Some (numToString (weight s))"
    "cell ?row 15 = Some (numToString (rir s))"
    "cell ?row 16 = Some []" "cell ?row 19 = Some []" "cell ?row 37 = Some []"
    by (simp_all add: cell_update_other cell_setRow)
  have p: "parsedSet ?row (13, 14, 15) = s"
    using parseInt_numToString_integer [OF assms(2)] parseFloat_numToString_decimal [OF assms(3)]
      parseInt_numToString_integer [OF assms(4)]
    by (simp add: parsedSet_def c toStr_def)
  show ?thesis
    using assms(1)
    by (simp add: parseWorkoutRow_def c8 c p truthy_def orEmpty_def setColumns_def
        numToString_nonempty)
qed

lemma assign_inside: "i < length row \<Longrightarrow> assign row i v = row[i := v]"
  by (simp add: assign_def)

lemma assignSets_inside:
  "length row = 38 \<Longrightarrow> index + length ss \<le> 8 \<Longrightarrow>
     length (assignSets row index ss) = 38
   \<and> (\<forall>j. j < 14 + 3 * index \<or> 14 + 3 * (index + length ss) \<le> j \<longrightarrow>
          assignSets row index ss ! j = row ! j)
   \<and> (\<forall>k < length ss.
          assignSets row index ss ! (14 + 3 * (index + k)) = numToString (reps (ss ! k))
        \<and> assignSets row index ss ! (15 + 3 * (index + k)) = numToString (weight (ss ! k))
        \<and> assignSets row index ss ! (16 + 3 * (index + k)) = numToString (rir (ss ! k)))"
proof (induction ss arbitrary: row index)
  case Nil
  then show ?case by simp
next
  case (Cons s ss)
  define row' where
    "row' = row[14 + 3 * index := numToString (reps s), 15 + 3 * index := numToString (weight s),
                16 + 3 * index := numToString (rir s)]"
  have i: "14 + index * 3 = 14 + 3 * index" "14 + index * 3 + 1 = 15 + 3 * index"
    "14 + index * 3 + 2 = 16 + 3 * index"
    by simp_all
  from Cons.prems have b: "16 + 3 * index < 38"
    by simp
  have l: "length row' = 38"
    using Cons.prems(1) by (simp add: row'_def)
  have step: "assignSets row index (s # ss) = assignSets row' (Suc index) ss"
    unfolding assignSets.simps i row'_def
    using b Cons.prems(1) by (simp add: assign_inside)
  from Cons.prems have "Suc index + length ss \<le> 8"
    by simp
  note ih = Cons.IH [OF l this]
  have len: "length (assignSets row' (Suc index) ss) = 38"
    using ih by blast
  have out: "assignSets row' (Suc index) ss ! j = row' ! j"
    if "j < 14 + 3 * Suc index \<or> 14 + 3 * (Suc index + length ss) \<le> j" for j
    using ih that by blast
  have ins: "assignSets row' (Suc index) ss ! (14 + 3 * (Suc index + k)) = numToString (reps (ss ! k))
        \<and> assignSets row' (Suc index) ss ! (15 + 3 * (Suc index + k)) = numToString (weight (ss ! k))
        \<and> assignSets row' (Suc index) ss ! (16 + 3 * (Suc index + k)) = numToString (rir (ss ! k))"
    if "k < length ss" for k
    using ih that by blast
  have first: "row' ! (14 + 3 * index) = numToString (reps s)"
    "row' ! (15 + 3 * index) = numToString (weight s)"
    "row' ! (16 + 3 * index) = numToString (rir s)"
    using b Cons.prems(1) by (simp_all add: row'_def)
  have other: "row' ! j = row ! j" if "j < 14 + 3 * index \<or> 17 + 3 * index \<le> j" for j
    using that by (auto simp: row'_def)
  show ?case
  proof (intro conjI allI impI)
    show "length (assignSets row index (s # ss)) = 38"
      unfolding step by (rule len)
  next
    fix j
    assume "j < 14 + 3 * index \<or> 14 + 3 * (index + length (s # ss)) \<le> j"
    then have "j < 14 + 3 * Suc index \<or> 14 + 3 * (Suc index + length ss) \<le> j"
      and "j < 14 + 3 * index \<or> 17 + 3 * index \<le> j"
      by auto
    then show "assignSets row index (s # ss) ! j = row ! j"
      unfolding step using out other by simp
  next
    fix k
    assume k: "k < length (s # ss)"
    show "assignSets row index (s # ss) ! (14 + 3 * (index + k)) = numToString (reps ((s # ss) ! k))"
    proof (cases k)
      case 0
      then show ?thesis
        unfolding step using out [of "14 + 3 * index"] first by simp
    next
      case (Suc k')
      with k have "k' < length ss" by simp
      from ins [OF this] Suc show ?thesis
        unfolding step by simp
    qed
    show "assignSets row index (s # ss) ! (15 + 3 * (index + k)) = numToString (weight ((s # ss) ! k))"
    proof (cases k)
      case 0
      then show ?thesis
        unfolding step using out [of "15 + 3 * index"] first by simp
    next
      case (Suc k')
      with k have "k' < length ss" by simp
      from ins [OF this] Suc show ?thesis
        unfolding step by simp
    qed
    show "assignSets row index (s # ss) ! (16 + 3 * (index + k)) = numToString (rir ((s # ss) ! k))"
    proof (cases k)
      case 0
      then show ?thesis
        unfolding step using out [of "16 + 3 * index"] first by simp
    next
      case (Suc k')
      with k have "k' < length ss" by simp
      from ins [OF this] Suc show ?thesis
        unfolding step by simp
    qed
  qed
qed

lemma totalSets_showNat:
  assumes "cell row 13 = Some (showNat n)"
  shows "totalSets row = n"
proof -
  have "parseInt (showNat n) = Fin (of_nat n)"
    using parseInt_digits [OF showNat_nonempty showNat_digits, of n] by (simp add: decValue_showNat)
  then show ?thesis
    by (simp add: totalSets_def assms toStr_def orZero_def)
qed

lemma appendRow_cells:
  assumes "length (sets exercise) \<le> 7"
  shows "cell (appendRow formattedDate exercise) 8 = Some (name exercise)"
    and "cell (appendRow formattedDate exercise) 13 = Some (showNat (length (sets exercise)))"
    and "cell (appendRow formattedDate exercise) 37 = Some (orEmpty (enotes exercise))"
    and "k < length (sets exercise) \<Longrightarrow>
           cell (appendRow formattedDate exercise) (14 + 3 * k)
             = Some (numToString (reps (sets exercise ! k)))
         \<and> cell (appendRow formattedDate exercise) (15 + 3 * k)
             = Some (numToString (weight (sets exercise ! k)))
         \<and> cell (appendRow formattedDate exercise) (16 + 3 * k)
             = Some (numToString (rir (sets exercise ! k)))"
proof -
  define row0 where
    "row0 = (replicate 38 [])[6 := formattedDate, 8 := name exercise,
                             13 := showNat (length (sets exercise))]"
  define filled where "filled = assignSets row0 0 (sets exercise)"
  have l0: "length row0 = 38"
    by (simp add: row0_def)
  from assms have "0 + length (sets exercise) \<le> 8"
    by simp
  note a = assignSets_inside [OF l0 this, folded filled_def]
  have lf: "length filled = 38"
    using a by blast
  have out: "filled ! j = row0 ! j" if "j < 14 \<or> 14 + 3 * length (sets exercise) \<le> j" for j
    using a that by auto
  have ins: "filled ! (14 + 3 * k) = numToString (reps (sets exercise ! k))
      \<and> filled ! (15 + 3 * k) = numToString (weight (sets exercise ! k))
      \<and> filled ! (16 + 3 * k) = numToString (rir (sets exercise ! k))"
    if "k < length (sets exercise)" for k
    using a that by auto
  have r: "appendRow formattedDate exercise = filled[37 := orEmpty (enotes exercise)]"
    unfolding appendRow_def row0_def [symmetric] filled_def [symmetric]
    by (simp add: assign_inside lf)
  show "cell (appendRow formattedDate exercise) 8 = Some (name exercise)"
    unfolding r using out [of 8] by (simp add: cell_def lf row0_def)
  show "cell (appendRow formattedDate exercise) 13 = Some (showNat (length (sets exercise)))"
    unfolding r using out [of 13] by (simp add: cell_def lf row0_def)
  show "cell (appendRow formattedDate exercise) 37 = Some (orEmpty (enotes exercise))"
    unfolding r by (simp add: cell_def lf)
  show "cell (appendRow formattedDate exercise) (14 + 3 * k)
             = Some (numToString (reps (sets exercise ! k)))
         \<and> cell (appendRow formattedDate exercise) (15 + 3 * k)
             = Some (numToString (weight (sets exercise ! k)))
         \<and> cell (appendRow formattedDate exercise) (16 + 3 * k)
             = Some (numToString (rir (sets exercise ! k)))"
    if "k < length (sets exercise)"
  proof -
    from that assms have "16 + 3 * k < 37"
      by simp
    then show ?thesis
      unfolding r using ins [OF that] by (simp add: cell_def lf)
  qed
qed

text \<open>
  \<^verbatim>\<open>updateWorkoutData\<close> of \<^verbatim>\<open>googleSheets.js\<close> encodes an exercise with its name and
  the number of its sets, and \<^verbatim>\<open>processWorkoutRows\<close> of the same file gets the exercise
  back from the row: for an exercise with a name and one to seven sets, whose reps and
  rir are safe integers and whose weights are short decimals.  (The rir of an eighth set
  is written to cell 37, where the notes are written after it.)
\<close>

lemma appendRow_round_trip:
  assumes "name exercise \<noteq> []" and "sets exercise \<noteq> []" and "length (sets exercise) \<le> 7"
    and "list_all (\<lambda>s. isSafeInteger (reps s) \<and> shortDecimal (weight s) \<and> isSafeInteger (rir s))
           (sets exercise)"
  shows "exerciseOfRow_js (appendRow formattedDate exercise)
           = Some \<lparr> name = name exercise, sets = sets exercise,
                    enotes = Some (orEmpty (enotes exercise)) \<rparr>"
proof -
  let ?row = "appendRow formattedDate exercise"
  note c = appendRow_cells [OF assms(3), where formattedDate = formattedDate]
  have n: "totalSets ?row = length (sets exercise)"
    by (rule totalSets_showNat) (rule c(2))
  have any: "anyData ?row k" if "k < length (sets exercise)" for k
  proof -
    have i: "14 + k * 3 = 14 + 3 * k"
      by simp
    show ?thesis
      unfolding anyData_def i using c(4) [OF that] by (simp add: truthy_def numToString_nonempty)
  qed
  have p: "parsedSet ?row (14 + k * 3, 14 + k * 3 + 1, 14 + k * 3 + 2) = sets exercise ! k"
    if "k < length (sets exercise)" for k
  proof -
    have i: "14 + k * 3 = 14 + 3 * k" "14 + k * 3 + 1 = 15 + 3 * k" "14 + k * 3 + 2 = 16 + 3 * k"
      by simp_all
    from assms(4) that
    have s: "isSafeInteger (reps (sets exercise ! k))" "shortDecimal (weight (sets exercise ! k))"
      "isSafeInteger (rir (sets exercise ! k))"
      by (simp_all add: list_all_length)
    show ?thesis
      unfolding i parsedSet_def
      using c(4) [OF that] parseInt_numToString_integer [OF s(1)]
        parseFloat_numToString_decimal [OF s(2)] parseInt_numToString_integer [OF s(3)]
      by (simp add: toStr_def)
  qed
  have f: "filter (anyData ?row) [0 ..< length (sets exercise)] = [0 ..< length (sets exercise)]"
    using any by (simp add: filter_id_conv)
  have "rowSets_js ?row
          = map (\<lambda>k. sets exercise ! k) [0 ..< length (sets exercise)]"
    unfolding rowSets_js_def n f using p by simp
  then have sets: "rowSets_js ?row = sets exercise"
    by (simp add: map_nth)
  show ?thesis
    unfolding exerciseOfRow_js_def sets
    using assms(1,2) c(1,3) by (simp add: truthy_def orEmpty_def)
qed

text \<open>
  Claim C8.  Encoding a list of sets into cells and decoding the cells again is to give
  the list back.  \<^verbatim>\<open>formatSheetData\<close> writes every set into a row of its own, at the
  cells 13 to 15, and the cardio row after them; it writes no exercise name, and
  \<^verbatim>\<open>parseWorkoutRow\<close> returns \<^verbatim>\<open>null\<close> for a row without a name.  So for every list of
  sets every row of a set decodes to \<^verbatim>\<open>null\<close>, and decoding the rows that encode the list
  of the one set 5 x 100, rir 2, gives no set at all.  The encoder of \<^verbatim>\<open>googleSheets.js\<close>
  writes the name, and its decoder returns the set (\<open>appendRow_round_trip\<close> in general).
\<close>

theorem formatSheetData_sets_lost:
  "length (formatSheetData exerciseData cardioData) = length exerciseData + 1
   \<and> map parseWorkoutRow (butlast (formatSheetData exerciseData cardioData))
       = replicate (length exerciseData) None
   \<and> List.map_filter parseWorkoutRow
        (formatSheetData [\<lparr> reps = Fin 5, weight = Fin 100, rir = Fin 2 \<rparr>] emptyCardio) = []
   \<and> concat (map sets (List.map_filter parseWorkoutRow
        (formatSheetData [\<lparr> reps = Fin 5, weight = Fin 100, rir = Fin 2 \<rparr>] emptyCardio)))
       \<noteq> [\<lparr> reps = Fin 5, weight = Fin 100, rir = Fin 2 \<rparr>]
   \<and> map_option sets (exerciseOfRow_js (appendRow ''3/14''
        \<lparr> name = ''Squat'', sets = [\<lparr> reps = Fin 5, weight = Fin 100, rir = Fin 2 \<rparr>],
          enotes = Some [] \<rparr>))
       = Some [\<lparr> reps = Fin 5, weight = Fin 100, rir = Fin 2 \<rparr>]"
proof -
  have "map parseWorkoutRow (map setRow exerciseData) = replicate (length exerciseData) None"
    by (induction exerciseData) (simp_all add: parseWorkoutRow_setRow)
  then have general: "length (formatSheetData exerciseData cardioData) = length exerciseData + 1
     \<and> map parseWorkoutRow (butlast (formatSheetData exerciseData cardioData))
         = replicate (length exerciseData) None"
    by (simp add: formatSheetData_def)
  have lost: "List.map_filter parseWorkoutRow
        (formatSheetData [\<lparr> reps = Fin 5, weight = Fin 100, rir = Fin 2 \<rparr>] emptyCardio) = []"
    by code_simp
  have sibling: "map_option sets (exerciseOfRow_js (appendRow ''3/14''
        \<lparr> name = ''Squat'', sets = [\<lparr> reps = Fin 5, weight = Fin 100, rir = Fin 2 \<rparr>],
          enotes = Some [] \<rparr>))
       = Some [\<lparr> reps = Fin 5, weight = Fin 100, rir = Fin 2 \<rparr>]"
    by code_simp
  from general lost sibling show ?thesis
    by simp
qed
section \<open>Reading a day without a cardio row\<close>

lemma cardioFor_no_match:
  "\<forall>row \<in> set cardioRows. \<not> matches row \<Longrightarrow> cardioFor matches cardioRows = emptyCardio"
  by (simp add: cardioFor_def find_None_iff[THEN iffD2] split: option.splits)

text \<open>
  Claim C10.  When no row of the cardio log has the query date, a read whose two requests
  succeed still succeeds, and the cardio session it returns has every text field empty
  and every number 0.  This holds for \<^verbatim>\<open>getWorkoutData\<close> of \<^verbatim>\<open>googleSheets.ts\<close> and
  for the one of the second service file.
\<close>

theorem getWorkoutData_no_cardio_row:
  "(hasToken token \<and> remote (Get (sheetRange ''workout log'' ''A:AL'')) = Ok workoutRows
      \<and> remote (Get (sheetRange ''cardio log'' ''A:BM'')) = Ok cardioRows
      \<and> (\<forall>row \<in> set cardioRows. \<not> rowHasDate_ts 5 parsedDate row)
    \<longrightarrow> (\<exists>wd. getWorkoutData_ts token remote parsedDate isoDate = Inr wd
          \<and> modality (cardio wd) = [] \<and> workRest (cardio wd) = [] \<and> cnotes (cardio wd) = []
          \<and> minutes (cardio wd) = Fin 0 \<and> seconds (cardio wd) = Fin 0
          \<and> rpe (cardio wd) = Fin 0 \<and> watts (cardio wd) = Fin 0))
   \<and> (hasToken token \<and> remote (Get (sheetRange ''workout log'' ''A:AL'')) = Ok workoutRows
      \<and> remote (Get (sheetRange ''cardio log'' ''A:BM'')) = Ok cardioRows
      \<and> (\<forall>row \<in> set cardioRows. \<not> rowHasDate_svc 5 parsedDate row)
    \<longrightarrow> (\<exists>wd. getWorkoutData_svc token remote parsedDate isoDate = (Inr wd, token)
          \<and> modality (cardio wd) = [] \<and> workRest (cardio wd) = [] \<and> cnotes (cardio wd) = []
          \<and> minutes (cardio wd) = Fin 0 \<and> seconds (cardio wd) = Fin 0
          \<and> rpe (cardio wd) = Fin 0 \<and> watts (cardio wd) = Fin 0))"
proof (intro conjI impI)
  assume h: "hasToken token \<and> remote (Get (sheetRange ''workout log'' ''A:AL'')) = Ok workoutRows
      \<and> remote (Get (sheetRange ''cardio log'' ''A:BM'')) = Ok cardioRows
      \<and> (\<forall>row \<in> set cardioRows. \<not> rowHasDate_ts 5 parsedDate row)"
  then have "cardioFor (rowHasDate_ts 5 parsedDate) cardioRows = emptyCardio"
    by (simp add: cardioFor_no_match)
  with h show "\<exists>wd. getWorkoutData_ts token remote parsedDate isoDate = Inr wd
          \<and> modality (cardio wd) = [] \<and> workRest (cardio wd) = [] \<and> cnotes (cardio wd) = []
          \<and> minutes (cardio wd) = Fin 0 \<and> seconds (cardio wd) = Fin 0
          \<and> rpe (cardio wd) = Fin 0 \<and> watts (cardio wd) = Fin 0"
    by (simp add: getWorkoutData_ts_def fetchSheetData_ts_def emptyCardio_def)
next
  assume h: "hasToken token \<and> remote (Get (sheetRange ''workout log'' ''A:AL'')) = Ok workoutRows
      \<and> remote (Get (sheetRange ''cardio log'' ''A:BM'')) = Ok cardioRows
      \<and> (\<forall>row \<in> set cardioRows. \<not> rowHasDate_svc 5 parsedDate row)"
  then have "cardioFor (rowHasDate_svc 5 parsedDate) cardioRows = emptyCardio"
    by (simp add: cardioFor_no_match)
  with h show "\<exists>wd. getWorkoutData_svc token remote parsedDate isoDate = (Inr wd, token)
          \<and> modality (cardio wd) = [] \<and> workRest (cardio wd) = [] \<and> cnotes (cardio wd) = []
          \<and> minutes (cardio wd) = Fin 0 \<and> seconds (cardio wd) = Fin 0
          \<and> rpe (cardio wd) = Fin 0 \<and> watts (cardio wd) = Fin 0"
    by (simp add: getWorkoutData_svc_def fetchSheetData_svc_def emptyCardio_def)
qed

theorem getWorkoutData_no_cardio_row_witness:
  "(\<exists>wd. getWorkoutData_ts (Some ''token'')
            (\<lambda>r. if r = Get (sheetRange ''cardio log'' ''A:BM'')
                  then Ok [[''Date''], replicate 5 [] @ [''Fri 3/15'', [], [], ''Row'']] else Ok [])
            ''3/14'' ''2024-03-14'' = Inr wd
          \<and> modality (cardio wd) = [] \<and> workRest (cardio wd) = [] \<and> cnotes (cardio wd) = []
          \<and> minutes (cardio wd) = Fin 0 \<and> seconds (cardio wd) = Fin 0
          \<and> rpe (cardio wd) = Fin 0 \<and> watts (cardio wd) = Fin 0)
   \<and> (\<exists>wd. getWorkoutData_svc (Some ''token'')
            (\<lambda>r. if r = Get (sheetRange ''cardio log'' ''A:BM'')
                  then Ok [[''Date''], replicate 5 [] @ [''Fri 3/15'', [], [], ''Row'']] else Ok [])
            ''3/14'' ''2024-03-14'' = (Inr wd, Some ''token'')
          \<and> modality (cardio wd) = [] \<and> workRest (cardio wd) = [] \<and> cnotes (cardio wd) = []
          \<and> minutes (cardio wd) = Fin 0 \<and> seconds (cardio wd) = Fin 0
          \<and> rpe (cardio wd) = Fin 0 \<and> watts (cardio wd) = Fin 0)"
proof -
  let ?remote = "\<lambda>r. if r = Get (sheetRange ''cardio log'' ''A:BM'')
                  then Ok [[''Date''], replicate 5 [] @ [''Fri 3/15'', [], [], ''Row'']] else Ok []"
  let ?rows = "[[''Date''], replicate 5 [] @ [''Fri 3/15'', [], [], ''Row'']]"
  have t: "hasToken (Some ''token'')"
    by (simp add: hasToken_def truthy_def)
  have w: "?remote (Get (sheetRange ''workout log'' ''A:AL'')) = Ok []"
    by (simp add: sheetRange_def)
  have c: "?remote (Get (sheetRange ''cardio log'' ''A:BM'')) = Ok ?rows"
    by simp
  have n1: "\<forall>row \<in> set ?rows. \<not> rowHasDate_ts 5 ''3/14'' row"
    by code_simp
  have n2: "\<forall>row \<in> set ?rows. \<not> rowHasDate_svc 5 ''3/14'' row"
    by code_simp
  from t w c n1 n2
    getWorkoutData_no_cardio_row [of "Some ''token''" ?remote "[]" ?rows "''3/14''" "''2024-03-14''"]
  show ?thesis by blast
qed

section \<open>Updating a day: finding the rows\<close>

text \<open>
  For \<^verbatim>\<open>updateWorkoutData\<close> of \<^verbatim>\<open>googleSheets.ts\<close>: an entry of \<^verbatim>\<open>dateRows\<close> comes from
  a row with the query date and that key, and every such row gives its key an entry; an
  exercise whose lower-case name is the key of no row of the date (and is not a name
  every object inherits) gets no update; and the only requests sent are batch updates,
  never an append.  In the second service file an exercise without a row is skipped as
  well, and the only requests are single-cell writes.
\<close>

lemma exerciseUpdates_ts_no_row:
  "lookupRow rows (toLowerCase (name exercise)) = NoRow \<Longrightarrow> exerciseUpdates_ts rows exercise = []"
  by (simp add: exerciseUpdates_ts_def)

lemma dateRows_from_Some:
  "dateRows_from parsedDate index rows acc k = Some n \<Longrightarrow>
     acc k = Some n
   \<or> (\<exists>j < length rows. n = index + j + 1
          \<and> normalizeDate_ts (cell (rows ! j) 6) = parsedDate \<and> rowKey (rows ! j) = k)"
proof (induction rows arbitrary: index acc)
  case Nil
  then show ?case by simp
next
  case (Cons row rows)
  let ?acc = "if normalizeDate_ts (cell row 6) = parsedDate then acc(rowKey row \<mapsto> index + 1) else acc"
  from Cons.prems have "dateRows_from parsedDate (Suc index) rows ?acc k = Some n" by simp
  from Cons.IH [OF this] consider
    (old) "?acc k = Some n"
    | (new) j where "j < length rows" "n = Suc index + j + 1"
        "normalizeDate_ts (cell (rows ! j) 6) = parsedDate" "rowKey (rows ! j) = k"
    by blast
  then show ?case
  proof cases
    case old
    show ?thesis
    proof (cases "normalizeDate_ts (cell row 6) = parsedDate \<and> rowKey row = k")
      case True
      with old have "n = index + 0 + 1" by simp
      with True have "\<exists>j < length (row # rows). n = index + j + 1
          \<and> normalizeDate_ts (cell ((row # rows) ! j) 6) = parsedDate \<and> rowKey ((row # rows) ! j) = k"
        by (intro exI [of _ 0]) simp
      then show ?thesis by blast
    next
      case False
      with old have "acc k = Some n" by (auto split: if_splits)
      then show ?thesis by blast
    qed
  next
    case new
    then have "\<exists>j' < length (row # rows). n = index + j' + 1
          \<and> normalizeDate_ts (cell ((row # rows) ! j') 6) = parsedDate \<and> rowKey ((row # rows) ! j') = k"
      by (intro exI [of _ "Suc j"]) simp
    then show ?thesis by blast
  qed
qed

lemma dateRows_Some:
  "dateRows parsedDate workoutRows k = Some n \<Longrightarrow>
     \<exists>j < length workoutRows. n = j + 1
        \<and> normalizeDate_ts (cell (workoutRows ! j) 6) = parsedDate \<and> rowKey (workoutRows ! j) = k"
  using dateRows_from_Some [of parsedDate 0 workoutRows Map.empty k n]
  by (simp add: dateRows_def)

lemma dateRows_from_found:
  "j < length rows \<Longrightarrow> normalizeDate_ts (cell (rows ! j) 6) = parsedDate \<Longrightarrow>
     dateRows_from parsedDate index rows acc (rowKey (rows ! j)) \<noteq> None"
proof (induction rows arbitrary: index acc j)
  case Nil
  then show ?case by simp
next
  case (Cons row rows)
  have keep: "acc' k \<noteq> None \<Longrightarrow> dateRows_from parsedDate i rs acc' k \<noteq> None" for acc' k i rs
    by (induction rs arbitrary: i acc') auto
  show ?case
  proof (cases j)
    case 0
    with Cons.prems show ?thesis by (simp add: keep)
  next
    case (Suc j')
    with Cons.prems Cons.IH [of j'] show ?thesis by simp
  qed
qed

lemma dateRows_found:
  "j < length workoutRows \<Longrightarrow> normalizeDate_ts (cell (workoutRows ! j) 6) = parsedDate \<Longrightarrow>
     dateRows parsedDate workoutRows (rowKey (workoutRows ! j)) \<noteq> None"
  by (simp add: dateRows_def dateRows_from_found)

lemma batchUpdate_requests:
  "batchUpdate token remote updates = (r, sent) \<Longrightarrow> req \<in> set sent \<Longrightarrow> req = BatchUpdate updates"
  by (auto simp: batchUpdate_def split: if_splits response.splits)

lemma updateWorkoutData_ts_requests:
  "req \<in> set (snd (updateWorkoutData_ts token remote parsedDate workoutData)) \<Longrightarrow>
     \<exists>updates. req = BatchUpdate updates"
  unfolding updateWorkoutData_ts_def
  by (auto split: sum.splits prod.splits option.splits dest: batchUpdate_requests)

lemma promiseAll_requests:
  "\<forall>p \<in> set ps. \<forall>req \<in> set (snd p). P req \<Longrightarrow> \<forall>req \<in> set (snd (promiseAll ps)). P req"
  by (induction ps rule: promiseAll.induct) (auto split: prod.splits)

lemma exerciseUpdates_ts_skipped:
  assumes "\<forall>j < length workoutRows.
             \<not> (normalizeDate_ts (cell (workoutRows ! j) 6) = parsedDate
                \<and> rowKey (workoutRows ! j) = toLowerCase (name exercise))"
    and "toLowerCase (name exercise) \<noteq> ''constructor''"
    and "toLowerCase (name exercise) \<noteq> ''__proto__''"
  shows "exerciseUpdates_ts (dateRows parsedDate workoutRows) exercise = []"
proof -
  have "dateRows parsedDate workoutRows (toLowerCase (name exercise)) = None"
  proof (cases "dateRows parsedDate workoutRows (toLowerCase (name exercise))")
    case None
    then show ?thesis .
  next
    case (Some n)
    from dateRows_Some [OF Some] assms(1) show ?thesis by blast
  qed
  with assms(2,3) have "lookupRow (dateRows parsedDate workoutRows) (toLowerCase (name exercise)) = NoRow"
    by (simp add: lookupRow_def)
  then show ?thesis by (rule exerciseUpdates_ts_no_row)
qed

lemma exerciseUpdates_ts_found:
  assumes "j < length workoutRows"
    and "normalizeDate_ts (cell (workoutRows ! j) 6) = parsedDate"
    and "rowKey (workoutRows ! j) = toLowerCase (name exercise)"
  shows "lookupRow (dateRows parsedDate workoutRows) (toLowerCase (name exercise)) \<noteq> NoRow"
  using dateRows_found [OF assms(1,2)] assms(3)
  by (auto simp: lookupRow_def split: option.splits)

lemma updateCell_requests:
  "req \<in> set (snd (updateCell token remote row col v)) \<Longrightarrow> req = Put (updateCell_range row col) v"
  by (auto simp: updateCell_def split: if_splits response.splits)

lemma exerciseUpdate_svc_skipped:
  "findExerciseRow_svc parsedDate workoutRows exercise = None \<Longrightarrow>
     exerciseUpdate_svc token remote parsedDate workoutRows exercise = (Inr (), [])"
  by (simp add: exerciseUpdate_svc_def)

text \<open>
  Claim C6.  The update path finds, for each exercise, the fetched row whose normalized
  date is the query key and whose name equals the exercise's name up to case, skips the
  exercise silently when there is none, and never creates a row.
  \<^verbatim>\<open>updateWorkoutData\<close> of \<^verbatim>\<open>googleSheets.ts\<close> does so.  The one of the second service
  file compares the stored cells themselves, \<^verbatim>\<open>row[6] === parsedDate\<close> and
  \<^verbatim>\<open>row[8] === exercise.name\<close>: a row dated \<^verbatim>\<open>Thu 3/14\<close>, which its own
  \<^verbatim>\<open>getWorkoutData\<close> reads as a row of 3/14, is not found, and the update of the
  exercise is skipped without an error.
\<close>

theorem updateWorkoutData_svc_skips_weekday_row:
  "getWorkoutData_svc (Some ''token'') weekdaySheet ''3/14'' ''2024-03-14''
     = (Inr \<lparr> wdate = ''2024-03-14'',
              exercises = [\<lparr> name = ''Squat'',
                             sets = [\<lparr> reps = Fin 5, weight = Fin 95, rir = Fin 3 \<rparr>],
                             enotes = None \<rparr>],
              cardio = emptyCardio \<rparr>, Some ''token'')
   \<and> updateWorkoutData_svc (Some ''token'') weekdaySheet ''3/14'' squatDay
     = (Inr (), [], Some ''token'')
   \<and> updateWorkoutData_ts (Some ''token'') weekdaySheet ''3/14'' squatDay
     = (Inr (), [BatchUpdate [(sheetRange ''workout log'' ''O2'', ''5''),
                              (sheetRange ''workout log'' ''P2'', ''100''),
                              (sheetRange ''workout log'' ''Q2'', ''2'')]])"
  by code_simp

section \<open>Appending a day: the two portions of a write\<close>

text \<open>Online, a refused append of the session-log rows queues the change and fails; a
  refused append of the cardio row, after the session-log rows were accepted or when
  there are none, ends in success with the queue as it was.\<close>

lemma updateWorkoutData_js_workout_refused:
  assumes "onLine" and "exercises workoutData \<noteq> []"
    and "remote (Append (sheetRange ''workout log'' ''A:Z'')
                   (map (appendRow formattedDate) (exercises workoutData))) = NotOk status"
  shows "updateWorkoutData_js onLine remote syncQueue formattedDate isoDate workoutData
           = (Inl RequestFailed, syncQueue @ [(isoDate, workoutData)],
              [Append (sheetRange ''workout log'' ''A:Z'')
                 (map (appendRow formattedDate) (exercises workoutData))])"
  using assms by (simp add: updateWorkoutData_js_def Let_def isOk_def)

lemma updateWorkoutData_js_cardio_refused:
  assumes "onLine"
    and "exercises workoutData = []
         \<or> isOk (remote (Append (sheetRange ''workout log'' ''A:Z'')
                            (map (appendRow formattedDate) (exercises workoutData))))"
    and "someValue (cardio workoutData)"
    and "remote (Append (sheetRange ''cardio log'' ''A:BM'')
                   [cardioAppendRow formattedDate (cardio workoutData)]) = NotOk status"
  shows "fst (updateWorkoutData_js onLine remote syncQueue formattedDate isoDate workoutData)
           = Inr Success
       \<and> fst (snd (updateWorkoutData_js onLine remote syncQueue formattedDate isoDate workoutData))
           = syncQueue"
  using assms by (auto simp: updateWorkoutData_js_def Let_def isOk_def split: response.splits)

text \<open>
  Claim C7.  Every part of a write either reaches the remote store or the change is
  queued.  In \<^verbatim>\<open>updateWorkoutData\<close> of \<^verbatim>\<open>googleSheets.js\<close> this holds for the session-log
  portion: a response that is not ok is thrown, and the handler queues the change.  It
  does not hold for the cardio portion: a response that is not ok is only logged, the
  call returns success and the queue stays as it was, so the cardio row is lost.
\<close>

theorem updateWorkoutData_js_drops_failed_cardio:
  "updateWorkoutData_js True cardioRefused [] ''3/14'' ''2024-03-14'' runDay
     = (Inr Success, [],
        [Append (sheetRange ''workout log'' ''A:Z'') [appendRow ''3/14'' (hd (exercises runDay))],
         Append (sheetRange ''cardio log'' ''A:BM'') [cardioAppendRow ''3/14'' (cardio runDay)]])
   \<and> cardioRefused (Append (sheetRange ''cardio log'' ''A:BM'')
                       [cardioAppendRow ''3/14'' (cardio runDay)]) = NotOk 500
   \<and> updateWorkoutData_js True (\<lambda>req. NotOk 500) [] ''3/14'' ''2024-03-14'' runDay
     = (Inl RequestFailed, [(''2024-03-14'', runDay)],
        [Append (sheetRange ''workout log'' ''A:Z'') [appendRow ''3/14'' (hd (exercises runDay))]])"
  by code_simp

section \<open>Draining the pending changes\<close>

lemma saveAll_prefix:
  "\<exists>k \<le> length q.
      (\<forall>j < k. saveWorkout svc (h @ map SaveChange (take j q)) (SaveChange (q ! j)))
    \<and> (if k = length q then saveAll svc h q = (True, h @ map SaveChange q)
       else \<not> saveWorkout svc (h @ map SaveChange (take k q)) (SaveChange (q ! k))
            \<and> saveAll svc h q = (False, h @ map SaveChange (take (Suc k) q)))"
proof (induction q arbitrary: h)
  case Nil
  show ?case by simp
next
  case (Cons c cs)
  show ?case
  proof (cases "saveWorkout svc h (SaveChange c)")
    case False
    then have "(\<forall>j < (0::nat). saveWorkout svc (h @ map SaveChange (take j (c # cs))) (SaveChange ((c # cs) ! j)))
      \<and> (if 0 = length (c # cs) then saveAll svc h (c # cs) = (True, h @ map SaveChange (c # cs))
         else \<not> saveWorkout svc (h @ map SaveChange (take 0 (c # cs))) (SaveChange ((c # cs) ! 0))
              \<and> saveAll svc h (c # cs) = (False, h @ map SaveChange (take (Suc 0) (c # cs))))"
      by simp
    then show ?thesis by (intro exI[of _ 0]) simp
  next
    case True
    from Cons.IH [of "h @ [SaveChange c]"] obtain k where k: "k \<le> length cs"
      and pre: "\<forall>j < k. saveWorkout svc ((h @ [SaveChange c]) @ map SaveChange (take j cs)) (SaveChange (cs ! j))"
      and fin: "if k = length cs then saveAll svc (h @ [SaveChange c]) cs = (True, (h @ [SaveChange c]) @ map SaveChange cs)
         else \<not> saveWorkout svc ((h @ [SaveChange c]) @ map SaveChange (take k cs)) (SaveChange (cs ! k))
              \<and> saveAll svc (h @ [SaveChange c]) cs = (False, (h @ [SaveChange c]) @ map SaveChange (take (Suc k) cs))"
      by blast
    have a: "\<forall>j < Suc k. saveWorkout svc (h @ map SaveChange (take j (c # cs))) (SaveChange ((c # cs) ! j))"
    proof (intro allI impI)
      fix j assume "j < Suc k"
      show "saveWorkout svc (h @ map SaveChange (take j (c # cs))) (SaveChange ((c # cs) ! j))"
      proof (cases j)
        case 0
        with True show ?thesis by simp
      next
        case (Suc i)
        with \<open>j < Suc k\<close> pre show ?thesis by simp
      qed
    qed
    have b: "if Suc k = length (c # cs) then saveAll svc h (c # cs) = (True, h @ map SaveChange (c # cs))
         else \<not> saveWorkout svc (h @ map SaveChange (take (Suc k) (c # cs))) (SaveChange ((c # cs) ! Suc k))
              \<and> saveAll svc h (c # cs) = (False, h @ map SaveChange (take (Suc (Suc k)) (c # cs)))"
      using fin True by (simp split: if_splits)
    from k a b show ?thesis by (intro exI[of _ "Suc k"]) simp
  qed
qed

text \<open>
  Claim C1, as amended.  \<^verbatim>\<open>syncPendingChanges\<close> does nothing when the tracker is
  offline or has no pending change.  Otherwise it saves the pending changes in their
  order and stops at the first one that fails: some number \<open>k\<close> of them are saved.  When
  all are saved, the queue is emptied, in the state and in local storage, and the calls
  made are the saves of all the changes in order.  When the change at position \<open>k\<close>
  fails, the calls made are the saves of the first \<open>k + 1\<close> changes in order, and the
  queue stays as it was, in the state and in local storage, the changes already saved
  included: no single entry is ever removed.
\<close>

theorem syncPendingChanges_queue:
  "if \<not> isOnline st \<or> pendingChanges st = [] then syncPendingChanges svc st = st
   else (\<exists>k \<le> length (pendingChanges st).
           (\<forall>j < k. saveWorkout svc (calls st @ map SaveChange (take j (pendingChanges st)))
                      (SaveChange (pendingChanges st ! j)))
         \<and> (if k = length (pendingChanges st)
            then pendingChanges (syncPendingChanges svc st) = []
               \<and> storedPending (syncPendingChanges svc st) = None
               \<and> take (length (calls st) + k) (calls (syncPendingChanges svc st))
                   = calls st @ map SaveChange (pendingChanges st)
            else \<not> saveWorkout svc (calls st @ map SaveChange (take k (pendingChanges st)))
                     (SaveChange (pendingChanges st ! k))
               \<and> calls (syncPendingChanges svc st)
                   = calls st @ map SaveChange (take (Suc k) (pendingChanges st))
               \<and> pendingChanges (syncPendingChanges svc st) = pendingChanges st
               \<and> storedPending (syncPendingChanges svc st) = storedPending st))"
proof (cases "\<not> isOnline st \<or> pendingChanges st = []")
  case True
  then show ?thesis by (auto simp: syncPendingChanges_def)
next
  case False
  from saveAll_prefix [of "pendingChanges st" svc "calls st"]
  obtain k where k: "k \<le> length (pendingChanges st)"
    and pre: "\<forall>j < k. saveWorkout svc (calls st @ map SaveChange (take j (pendingChanges st)))
                      (SaveChange (pendingChanges st ! j))"
    and fin: "if k = length (pendingChanges st)
       then saveAll svc (calls st) (pendingChanges st) = (True, calls st @ map SaveChange (pendingChanges st))
       else \<not> saveWorkout svc (calls st @ map SaveChange (take k (pendingChanges st))) (SaveChange (pendingChanges st ! k))
            \<and> saveAll svc (calls st) (pendingChanges st) = (False, calls st @ map SaveChange (take (Suc k) (pendingChanges st)))"
    by blast
  have body: "if k = length (pendingChanges st)
            then pendingChanges (syncPendingChanges svc st) = []
               \<and> storedPending (syncPendingChanges svc st) = None
               \<and> take (length (calls st) + k) (calls (syncPendingChanges svc st))
                   = calls st @ map SaveChange (pendingChanges st)
            else \<not> saveWorkout svc (calls st @ map SaveChange (take k (pendingChanges st)))
                     (SaveChange (pendingChanges st ! k))
               \<and> calls (syncPendingChanges svc st)
                   = calls st @ map SaveChange (take (Suc k) (pendingChanges st))
               \<and> pendingChanges (syncPendingChanges svc st) = pendingChanges st
               \<and> storedPending (syncPendingChanges svc st) = storedPending st"
  proof (cases "k = length (pendingChanges st)")
    case True
    with fin have s: "saveAll svc (calls st) (pendingChanges st) = (True, calls st @ map SaveChange (pendingChanges st))"
      by simp
    with False True show ?thesis
      by (simp add: syncPendingChanges_def loadWorkoutData_def Let_def split: option.splits)
  next
    case neq: False
    with fin have s: "saveAll svc (calls st) (pendingChanges st) = (False, calls st @ map SaveChange (take (Suc k) (pendingChanges st)))"
      and f: "\<not> saveWorkout svc (calls st @ map SaveChange (take k (pendingChanges st))) (SaveChange (pendingChanges st ! k))"
      by simp_all
    with False neq show ?thesis
      by (simp add: syncPendingChanges_def)
  qed
  from k pre body have
    "\<exists>k \<le> length (pendingChanges st).
           (\<forall>j < k. saveWorkout svc (calls st @ map SaveChange (take j (pendingChanges st)))
                      (SaveChange (pendingChanges st ! j)))
         \<and> (if k = length (pendingChanges st)
            then pendingChanges (syncPendingChanges svc st) = []
               \<and> storedPending (syncPendingChanges svc st) = None
               \<and> take (length (calls st) + k) (calls (syncPendingChanges svc st))
                   = calls st @ map SaveChange (pendingChanges st)
            else \<not> saveWorkout svc (calls st @ map SaveChange (take k (pendingChanges st)))
                     (SaveChange (pendingChanges st ! k))
               \<and> calls (syncPendingChanges svc st)
                   = calls st @ map SaveChange (take (Suc k) (pendingChanges st))
               \<and> pendingChanges (syncPendingChanges svc st) = pendingChanges st
               \<and> storedPending (syncPendingChanges svc st) = storedPending st)"
    by blast
  then show ?thesis by (simp only: if_not_P [OF False])
qed

theorem syncPendingChanges_queue_witness:
  "\<exists>k \<le> length (pendingChanges reconnectedTracker).
           (\<forall>j < k. saveWorkout (savesOnly change1) (calls reconnectedTracker @ map SaveChange (take j (pendingChanges reconnectedTracker)))
                      (SaveChange (pendingChanges reconnectedTracker ! j)))
         \<and> (if k = length (pendingChanges reconnectedTracker)
            then pendingChanges (syncPendingChanges (savesOnly change1) reconnectedTracker) = []
               \<and> storedPending (syncPendingChanges (savesOnly change1) reconnectedTracker) = None
               \<and> take (length (calls reconnectedTracker) + k) (calls (syncPendingChanges (savesOnly change1) reconnectedTracker))
                   = calls reconnectedTracker @ map SaveChange (pendingChanges reconnectedTracker)
            else \<not> saveWorkout (savesOnly change1) (calls reconnectedTracker @ map SaveChange (take k (pendingChanges reconnectedTracker)))
                     (SaveChange (pendingChanges reconnectedTracker ! k))
               \<and> calls (syncPendingChanges (savesOnly change1) reconnectedTracker)
                   = calls reconnectedTracker @ map SaveChange (take (Suc k) (pendingChanges reconnectedTracker))
               \<and> pendingChanges (syncPendingChanges (savesOnly change1) reconnectedTracker) = pendingChanges reconnectedTracker
               \<and> storedPending (syncPendingChanges (savesOnly change1) reconnectedTracker) = storedPending reconnectedTracker)"
proof -
  have on: "\<not> (\<not> isOnline reconnectedTracker \<or> pendingChanges reconnectedTracker = [])"
    by (simp add: reconnectedTracker_def offlineTracker_def)
  from syncPendingChanges_queue [of reconnectedTracker "savesOnly change1"]
  show ?thesis by (simp only: if_not_P [OF on])
qed

text \<open>
  The claim as stated fails: with two pending changes of which the first is saved and the
  second is not, the queue afterwards still holds both changes, not the second one alone.
\<close>

theorem syncPendingChanges_second_fails:
  "pendingChanges (syncPendingChanges (savesOnly change1) reconnectedTracker) = [change1, change2]
   \<and> pendingChanges (syncPendingChanges (savesOnly change1) reconnectedTracker) \<noteq> [change2]
   \<and> storedPending (syncPendingChanges (savesOnly change1) reconnectedTracker)
       = Some [change1, change2]
   \<and> calls (syncPendingChanges (savesOnly change1) reconnectedTracker)
       = [SaveChange change1, SaveChange change2]"
  by (simp add: syncPendingChanges_def reconnectedTracker_def offlineTracker_def savesOnly_def
      change1_def change2_def)

section \<open>Saving while offline\<close>

text \<open>
  Offline, \<^verbatim>\<open>handleSave\<close> of the component calls no service, appends exactly one change
  with the selected date and the record to the pending changes, in the state and in
  local storage, and stores the record as the snapshot of the date.
\<close>

lemma handleSave_offline_state:
  "\<not> isOnline st \<Longrightarrow>
     handleSave svc now R st
       = st\<lparr> pendingChanges := pendingChanges st
                 @ [\<lparr> c_date = date st, c_workout = R, c_timestamp = now \<rparr>],
             storedPending := Some (pendingChanges st
                 @ [\<lparr> c_date = date st, c_workout = R, c_timestamp = now \<rparr>]),
             storedWorkouts := (storedWorkouts st)(date st \<mapsto> R),
             workout := R, isSaving := False \<rparr>"
  by (simp add: handleSave_def Let_def)

text \<open>
  The next load, still offline, takes the record from the snapshot, whatever the
  component shows at that moment (\<open>shown\<close>), without a call and without an error.
\<close>

lemma handleSave_offline_read_back:
  "\<not> isOnline st \<Longrightarrow>
     workout (loadWorkoutData svc ((handleSave svc now R st)\<lparr> workout := shown \<rparr>)) = R
   \<and> dataSource (loadWorkoutData svc ((handleSave svc now R st)\<lparr> workout := shown \<rparr>))
       = ''cache''
   \<and> error (loadWorkoutData svc ((handleSave svc now R st)\<lparr> workout := shown \<rparr>)) = None
   \<and> calls (loadWorkoutData svc ((handleSave svc now R st)\<lparr> workout := shown \<rparr>)) = calls st"
  by (simp add: handleSave_def loadWorkoutData_def Let_def)

text \<open>
  The offline read of \<^verbatim>\<open>googleSheets.js\<close> looks up the same entry: it returns a record
  the component saved, and throws when the component saved \<^verbatim>\<open>null\<close>.
\<close>

lemma handleSave_offline_service_read:
  "\<not> isOnline st \<Longrightarrow>
     fst (getWorkoutData_js False (storedWorkouts (handleSave svc now (Some r) st)) fetched (date st))
       = Inr r
   \<and> fst (getWorkoutData_js False (storedWorkouts (handleSave svc now None st)) fetched (date st))
       = Inl OfflineNoCache"
  by (simp add: handleSave_def getWorkoutData_js_def getCachedData_def Let_def)

text \<open>The offline branch of \<^verbatim>\<open>updateWorkoutData\<close> of \<^verbatim>\<open>googleSheets.js\<close> sends no
  request, appends exactly one entry to the queue and leaves the snapshots as they are.\<close>

lemma updateWorkoutData_local_offline:
  "updateWorkoutData_local False remote store formattedDate isoDate workoutData
     = (Inr OfflineQueued, store\<lparr> queue := queue store @ [(isoDate, workoutData)] \<rparr>, [])"
  by (simp add: updateWorkoutData_local_def updateWorkoutData_js_def)

text \<open>
  Claim C2.  Saving a record offline is to queue one change and to update the snapshot
  of the date, so that a local read returns the record.  \<^verbatim>\<open>handleSave\<close> of the
  component does both.  \<^verbatim>\<open>updateWorkoutData\<close> of \<^verbatim>\<open>googleSheets.js\<close> queues the change
  and does not write the snapshot: after saving the day with the squats offline, the
  offline read of the same date throws when there was no snapshot, and returns the
  snapshot of before, a day without exercises, when there was one.
\<close>

theorem updateWorkoutData_js_offline_snapshot_stale:
  "updateWorkoutData_local False remote \<lparr> queue = [], snapshots = Map.empty \<rparr>
       ''3/14'' ''2024-03-14'' squatDay
     = (Inr OfflineQueued,
        \<lparr> queue = [(''2024-03-14'', squatDay)], snapshots = Map.empty \<rparr>, [])
   \<and> getWorkoutData_local False
        \<lparr> queue = [(''2024-03-14'', squatDay)], snapshots = Map.empty \<rparr> fetched ''2024-03-14''
     = (Inl OfflineNoCache, \<lparr> queue = [(''2024-03-14'', squatDay)], snapshots = Map.empty \<rparr>)
   \<and> updateWorkoutData_local False remote
        \<lparr> queue = [], snapshots = [''2024-03-14'' \<mapsto> Some restDay] \<rparr>
        ''3/14'' ''2024-03-14'' squatDay
     = (Inr OfflineQueued,
        \<lparr> queue = [(''2024-03-14'', squatDay)],
          snapshots = [''2024-03-14'' \<mapsto> Some restDay] \<rparr>, [])
   \<and> fst (getWorkoutData_local False
        \<lparr> queue = [(''2024-03-14'', squatDay)],
          snapshots = [''2024-03-14'' \<mapsto> Some restDay] \<rparr> fetched ''2024-03-14'')
     = Inr restDay
   \<and> restDay \<noteq> squatDay
   \<and> storedWorkouts (handleSave serviceDown ''2024-03-14T18:00:00.000Z'' (Some squatDay)
        offlineTracker) ''2024-03-14'' = Some (Some squatDay)
   \<and> fst (getWorkoutData_js False
        (storedWorkouts (handleSave serviceDown ''2024-03-14T18:00:00.000Z'' (Some squatDay)
           offlineTracker)) fetched ''2024-03-14'')
     = Inr squatDay"
  by (simp add: updateWorkoutData_local_def updateWorkoutData_js_def getWorkoutData_local_def
      getWorkoutData_js_def getCachedData_def handleSave_def offlineTracker_def Let_def
      restDay_def squatDay_def)

section \<open>Loading while offline\<close>

lemma loadWorkoutData_offline_hit:
  "\<not> isOnline st \<Longrightarrow> storedWorkouts st (date st) = Some w \<Longrightarrow>
     loadWorkoutData svc st
       = st\<lparr> loading := False, error := None, workout := w, dataSource := ''cache'' \<rparr>"
  by (simp add: loadWorkoutData_def)

lemma loadWorkoutData_offline_miss:
  "\<not> isOnline st \<Longrightarrow> storedWorkouts st (date st) = None \<Longrightarrow>
     loadWorkoutData svc st = st\<lparr> loading := False, error := None \<rparr>"
  by (simp add: loadWorkoutData_def)

lemma getWorkoutData_js_offline:
  "getWorkoutData_js False cache fetched d
     = (case cache d of
          Some (Some cached) \<Rightarrow> (Inr cached, cache)
        | Some None \<Rightarrow> (Inl OfflineNoCache, cache)
        | None \<Rightarrow> (Inl OfflineNoCache, cache))"
  by (simp add: getWorkoutData_js_def getCachedData_def split: option.splits)

text \<open>
  Claim C3.  Offline, a read answers from the snapshot without a call
  (\<open>loadWorkoutData_offline_hit\<close>, \<open>getWorkoutData_js_offline\<close>), and without a snapshot it
  must fail with an error.  \<^verbatim>\<open>getWorkoutData\<close> of \<^verbatim>\<open>googleSheets.js\<close> does throw then.
  \<^verbatim>\<open>loadWorkoutData\<close> of the component does not: offline and without a snapshot
  neither of its two branches is taken, so it sets no error and leaves the workout as it
  was (here \<^verbatim>\<open>null\<close>, the initial state).
\<close>

theorem loadWorkoutData_offline_miss_silent:
  "loadWorkoutData serviceDown offlineTracker = offlineTracker
   \<and> error (loadWorkoutData serviceDown offlineTracker) = None
   \<and> workout (loadWorkoutData serviceDown offlineTracker) = None
   \<and> calls (loadWorkoutData serviceDown offlineTracker) = []
   \<and> getWorkoutData_js False (storedWorkouts offlineTracker) fetched ''2024-03-14''
       = (Inl OfflineNoCache, storedWorkouts offlineTracker)"
  by (simp add: loadWorkoutData_def offlineTracker_def getWorkoutData_js_def getCachedData_def)

end
